theory Spec2Isabelle
  imports Complex_Main
begin

section \<open>Strings\<close>

text \<open>
  A JavaScript string is a sequence of UTF-16 code units, and \<open>length\<close>, \<open>substring\<close>,
  \<open>startsWith\<close>, \<open>indexOf\<close> and the regular expressions of the sources (none has the
  \<open>u\<close> flag) all count code units. A string is therefore a list of code units, each a
  natural number. \<open>str\<close> writes an ASCII literal; the Japanese literals of the sources
  are given by their code units.
\<close>

type_synonym jsstring = "nat list"

definition str :: "string \<Rightarrow> jsstring" where
  "str = map of_char"

text \<open>
  The code units that \<open>String.prototype.trim\<close> strips and that \<open>\s\<close> matches:
  the WhiteSpace and LineTerminator productions of ECMAScript.
\<close>

definition isWhiteSpace :: "nat \<Rightarrow> bool" where
  "isWhiteSpace c \<longleftrightarrow>
     c \<in> {0x9, 0xA, 0xB, 0xC, 0xD, 0x20, 0xA0, 0x1680, 0x2028, 0x2029, 0x202F, 0x205F, 0x3000, 0xFEFF}
     \<or> (0x2000 \<le> c \<and> c \<le> 0x200A)"

definition trim :: "jsstring \<Rightarrow> jsstring" where
  "trim s = rev (dropWhile isWhiteSpace (rev (dropWhile isWhiteSpace s)))"

text \<open>\<open>s.startsWith(p)\<close>.\<close>

fun startsWith :: "jsstring \<Rightarrow> jsstring \<Rightarrow> bool" where
  "startsWith s [] = True"
| "startsWith [] (p # ps) = False"
| "startsWith (c # cs) (p # ps) = (c = p \<and> startsWith cs ps)"

text \<open>
  \<open>s.split(sep)\<close> for a separator of one code unit, as a scan that collects the
  current piece: the result is never empty, and the empty string splits into one
  empty piece.
\<close>

fun splitFrom :: "nat \<Rightarrow> jsstring \<Rightarrow> jsstring \<Rightarrow> jsstring list" where
  "splitFrom sep piece [] = [piece]"
| "splitFrom sep piece (c # cs) =
     (if c = sep then piece # splitFrom sep [] cs else splitFrom sep (piece @ [c]) cs)"

definition split_on :: "nat \<Rightarrow> jsstring \<Rightarrow> jsstring list" where
  "split_on sep s = splitFrom sep [] s"

text \<open>\<open>xs.join(sep)\<close>.\<close>

fun join :: "jsstring \<Rightarrow> jsstring list \<Rightarrow> jsstring" where
  "join sep [] = []"
| "join sep [x] = x"
| "join sep (x # y # ys) = x @ sep @ join sep (y # ys)"

definition newline :: nat where
  "newline = 0xA"

section \<open>Decoding the stream-json output (claude-executor.ts)\<close>

text \<open>
  The values \<open>JSON.parse\<close> returns. An object is the list of its own properties. A number
  is given by its rational value (negative zero being zero); the decoder only looks at
  whether it is zero. A literal that overflows to \<open>Infinity\<close> has no value here.
\<close>

datatype json =
    JNull
  | JBool bool
  | JNum rat
  | JStr jsstring
  | JArr "json list"
  | JObj "(jsstring \<times> json) list"

datatype js_error = SyntaxError | TypeError | Thrown jsstring

text \<open>Truthiness of a value. Where a value may be \<open>undefined\<close>, that is \<open>None\<close>.\<close>

fun truthy :: "json \<Rightarrow> bool" where
  "truthy JNull = False"
| "truthy (JBool b) = b"
| "truthy (JNum n) = (n \<noteq> 0)"
| "truthy (JStr s) = (s \<noteq> [])"
| "truthy (JArr xs) = True"
| "truthy (JObj kvs) = True"

text \<open>
  \<open>v.name\<close> for a value \<open>v\<close> that is not \<open>null\<close> and the five property names the
  decoder reads (\<open>tool_use_result\<close>, \<open>filePath\<close>, \<open>type\<close>, \<open>result\<close>,
  \<open>session_id\<close>): none of them is an index, \<open>length\<close>, or inherited from a prototype,
  so only an object can have one, and every other value gives \<open>undefined\<close>.
\<close>

fun getProp :: "json \<Rightarrow> jsstring \<Rightarrow> json option" where
  "getProp (JObj kvs) name = map_of kvs name"
| "getProp v name = None"

text \<open>
  \<open>FileOperation\<close> and the value \<open>parseStreamJsonOutput\<close> returns. TypeScript declares
  the fields as strings, but they are filled with whatever \<open>JSON.parse\<close> produced and
  nothing checks them at run time, so the decoder keeps the JSON values: here a
  \<open>FileOperation\<close> holds values of type \<open>json\<close>. The coordinator relies on the
  declared type, and there a \<open>FileOperation\<close> holds strings.
\<close>

record 'v FileOperation =
  "type" :: 'v
  filePath :: 'v

record StreamJsonOutput =
  result :: json
  sessionId :: "json option"
  modifiedFiles :: "json FileOperation list"

text \<open>\<open>x || 'unknown'\<close> and \<open>x || ''\<close>.\<close>

definition orUnknown :: "json option \<Rightarrow> json" where
  "orUnknown x = (case x of None \<Rightarrow> JStr (str ''unknown'')
                  | Some v \<Rightarrow> if truthy v then v else JStr (str ''unknown''))"

definition orEmpty :: "json option \<Rightarrow> json" where
  "orEmpty x = (case x of None \<Rightarrow> JStr []
                | Some v \<Rightarrow> if truthy v then v else JStr [])"

text \<open>
  The element the first \<open>if\<close> of the loop body pushes, if any:
  \<open>json.tool_use_result && json.tool_use_result.filePath\<close> guards the push of
  \<open>{type: json.tool_use_result.type || 'unknown', filePath: json.tool_use_result.filePath}\<close>.
  A truthy \<open>tool_use_result\<close> is not null, so its properties can be read.
\<close>

definition pushedFile :: "json \<Rightarrow> json FileOperation option" where
  "pushedFile j =
     (case getProp j (str ''tool_use_result'') of
        None \<Rightarrow> None
      | Some tur \<Rightarrow>
          if \<not> truthy tur then None
          else (case getProp tur (str ''filePath'') of
                  None \<Rightarrow> None
                | Some fp \<Rightarrow>
                    if \<not> truthy fp then None
                    else Some \<lparr>type = orUnknown (getProp tur (str ''type'')), filePath = fp\<rparr>))"

text \<open>
  The statements of the \<open>try\<close> block after \<open>JSON.parse\<close> has returned \<open>j\<close>. The only
  expression that can throw is the first read \<open>json.tool_use_result\<close>, a TypeError when
  \<open>j\<close> is \<open>null\<close>; it comes before every assignment.
\<close>

definition lineBody :: "json \<Rightarrow> StreamJsonOutput \<Rightarrow> js_error + StreamJsonOutput" where
  "lineBody j acc =
     (if j = JNull then Inl TypeError
      else
        (let acc1 = (case pushedFile j of
                       None \<Rightarrow> acc
                     | Some f \<Rightarrow> acc\<lparr>modifiedFiles := modifiedFiles acc @ [f]\<rparr>)
         in Inr (if getProp j (str ''type'') = Some (JStr (str ''result''))
                 then acc1\<lparr>result := orEmpty (getProp j (str ''result'')),
                           sessionId := getProp j (str ''session_id'')\<rparr>
                 else acc1)))"

text \<open>
  One iteration of the loop: \<open>JSON.parse\<close> is a parameter (\<open>None\<close> when it throws a
  SyntaxError); the \<open>catch\<close> block is empty, so every throw leaves the state unchanged.
\<close>

definition decodeLine :: "(jsstring \<Rightarrow> json option) \<Rightarrow> StreamJsonOutput \<Rightarrow> jsstring \<Rightarrow> StreamJsonOutput" where
  "decodeLine JSON_parse acc line =
     (case JSON_parse line of
        None \<Rightarrow> acc
      | Some j \<Rightarrow> (case lineBody j acc of Inl e \<Rightarrow> acc | Inr acc' \<Rightarrow> acc'))"

text \<open>
  \<open>rawOutput.split('\n').filter(line => line.trim())\<close>, then the loop over the lines,
  which starts from \<open>result = ''\<close>, \<open>sessionId\<close> undefined and no file.
\<close>

definition outputLines :: "jsstring \<Rightarrow> jsstring list" where
  "outputLines rawOutput = filter (\<lambda>line. trim line \<noteq> []) (split_on newline rawOutput)"

text \<open>
  Vocabulary for the properties of the decoder: a line that the loop reaches and that
  parses to a record whose \<open>type\<close> is the string \<open>result\<close>.
\<close>

definition isResultLine :: "(jsstring \<Rightarrow> json option) \<Rightarrow> jsstring \<Rightarrow> bool" where
  "isResultLine JSON_parse line \<longleftrightarrow>
     trim line \<noteq> [] \<and>
     (case JSON_parse line of
        None \<Rightarrow> False
      | Some j \<Rightarrow> getProp j (str ''type'') = Some (JStr (str ''result'')))"

definition emptyOutput :: StreamJsonOutput where
  "emptyOutput = \<lparr>result = JStr [], sessionId = None, modifiedFiles = []\<rparr>"

definition parseStreamJsonOutput :: "(jsstring \<Rightarrow> json option) \<Rightarrow> jsstring \<Rightarrow> StreamJsonOutput" where
  "parseStreamJsonOutput JSON_parse rawOutput =
     foldl (decodeLine JSON_parse) emptyOutput (outputLines rawOutput)"

section \<open>Messages and the command parser (types/index.ts, command-parser.ts)\<close>

text \<open>
  An optional field (\<open>name?: string\<close>) is an \<open>option\<close>, \<open>None\<close> being
  \<open>undefined\<close>. \<open>file_id\<close> is the field \<open>id\<close> of \<open>SlackFile\<close>.
\<close>

record SlackFile =
  file_id :: jsstring
  name :: "jsstring option"
  mimetype :: "jsstring option"
  url_private :: "jsstring option"

record SlackMessage =
  ts :: jsstring
  channel :: jsstring
  user :: "jsstring option"
  "text" :: "jsstring option"
  files :: "SlackFile list option"
  thread_ts :: "jsstring option"

record ParsedCommand =
  projectName :: jsstring
  prompt :: jsstring
  imageUrls :: "jsstring list option"

text \<open>The attachments of a message: none when \<open>files\<close> is undefined.\<close>

definition filesOf :: "SlackMessage \<Rightarrow> SlackFile list" where
  "filesOf message = (case files message of None \<Rightarrow> [] | Some fs \<Rightarrow> fs)"

text \<open>Truthiness of an optional string: defined and not empty.\<close>

definition truthyStr :: "jsstring option \<Rightarrow> bool" where
  "truthyStr x = (case x of None \<Rightarrow> False | Some s \<Rightarrow> s \<noteq> [])"

text \<open>\<open>file.mimetype?.startsWith('image/')\<close>.\<close>

definition isImageFile :: "SlackFile \<Rightarrow> bool" where
  "isImageFile file = (case mimetype file of None \<Rightarrow> False | Some m \<Rightarrow> startsWith m (str ''image/''))"

text \<open>
  \<open>extractImageUrls\<close>: the final \<open>map\<close> applies the non-null assertion
  \<open>file.url_private!\<close> to files that passed the filter on \<open>file.url_private\<close>.
\<close>

definition extractImageUrls :: "SlackMessage \<Rightarrow> jsstring list option" where
  "extractImageUrls message =
     (case files message of
        None \<Rightarrow> None
      | Some fs \<Rightarrow>
          if length fs = 0 then None
          else
            (let imageFiles = filter isImageFile fs
             in if length imageFiles = 0 then None
                else Some (map (\<lambda>file. the (url_private file))
                            (filter (\<lambda>file. truthyStr (url_private file)) imageFiles))))"

text \<open>
  \<open>COMMAND_PATTERN = /^!claude\s+(\S+)\s+(.+)$/s\<close>, applied by \<open>text.match\<close>: the result
  is the pair of the two groups, or \<open>None\<close> for no match. \<open>\s\<close> and \<open>\S\<close> are
  complementary, so the first \<open>\s+\<close> and \<open>\S+\<close> can only take a whole run. The second
  \<open>\s+\<close> is greedy and takes its whole run too when something follows it, which the
  dot-all \<open>(.+)\<close> then takes up to the end; when nothing follows, the matcher backtracks
  and gives the last whitespace unit of a run of two or more to \<open>(.+)\<close>.
\<close>

definition COMMAND_PATTERN :: "jsstring \<Rightarrow> (jsstring \<times> jsstring) option" where
  "COMMAND_PATTERN s =
     (if \<not> startsWith s (str ''!claude'') then None
      else
        (let afterTrigger = drop 7 s;
             space1 = takeWhile isWhiteSpace afterTrigger;
             fromName = dropWhile isWhiteSpace afterTrigger;
             group1 = takeWhile (\<lambda>c. \<not> isWhiteSpace c) fromName;
             afterName = dropWhile (\<lambda>c. \<not> isWhiteSpace c) fromName;
             space2 = takeWhile isWhiteSpace afterName;
             body = dropWhile isWhiteSpace afterName
         in if space1 = [] \<or> group1 = [] \<or> space2 = [] then None
            else if body \<noteq> [] then Some (group1, body)
            else if 2 \<le> length space2 then Some (group1, [last space2])
            else None))"

text \<open>
  \<open>parseCommand\<close>. The mention form needs a truthy \<open>defaultProject\<close>;
  \<open>text.indexOf('>')\<close> finds the first \<open>>\<close> (code unit 62) and the prompt is what follows
  it. The calls of the logger are left out.
\<close>

definition parseCommand :: "SlackMessage \<Rightarrow> jsstring option \<Rightarrow> ParsedCommand option" where
  "parseCommand message defaultProject =
     (case text message of
        None \<Rightarrow> None
      | Some t \<Rightarrow>
          (let txt = trim t
           in if txt = [] then None
              else
                (case COMMAND_PATTERN txt of
                   Some (group1, group2) \<Rightarrow>
                     Some \<lparr>projectName = group1, prompt = trim group2,
                           imageUrls = extractImageUrls message\<rparr>
                 | None \<Rightarrow>
                     if truthyStr defaultProject \<and> startsWith txt (str ''<@'') then
                       (case dropWhile (\<lambda>c. c \<noteq> 62) txt of
                          [] \<Rightarrow> None
                        | gt # afterMention \<Rightarrow>
                            (let p = trim afterMention
                             in if p = [] then None
                                else Some \<lparr>projectName = the defaultProject, prompt = p,
                                           imageUrls = extractImageUrls message\<rparr>))
                     else None)))"

section \<open>The coordinator (index.ts)\<close>

subsection \<open>Data\<close>

record ThreadSession =
  projectName :: jsstring
  projectPath :: jsstring
  sessionId :: "jsstring option"

record ClaudeExecuteOptions =
  prompt :: jsstring
  cwd :: jsstring
  images :: "jsstring list option"
  resumeSessionId :: "jsstring option"
  systemPrompt :: "jsstring option"
  additionalAllowedTools :: "jsstring list option"

record ClaudeExecuteResult =
  success :: bool
  "output" :: jsstring
  error :: "jsstring option"
  sessionId :: "jsstring option"
  modifiedFiles :: "jsstring FileOperation list option"

text \<open>
  \<open>AppConfig\<close>, without the bot token. \<open>projects\<close> and \<open>channels\<close> list the own
  properties of the two \<open>Record<string, string>\<close> objects, \<open>channels\<close> in the order of
  \<open>Object.keys\<close>; \<open>claude_systemPrompt\<close> is \<open>config.claude?.systemPrompt\<close>.
  A lookup \<open>obj[key]\<close> in such an object is \<open>map_of\<close>: keys that name a property
  inherited from \<open>Object.prototype\<close> (such as \<open>constructor\<close>) are outside the model,
  here and for \<open>FILE_OPERATION_LABELS\<close>.
\<close>

record AppConfig =
  pollingInterval :: nat
  projects :: "(jsstring \<times> jsstring) list"
  channels :: "(jsstring \<times> jsstring) list option"
  claude_systemPrompt :: "jsstring option"

text \<open>
  What the coordinator does to the outside, in the order it does it: the calls of the
  Slack client with their arguments, the executions with the options given and the
  result obtained, and the calls of \<open>logger.error\<close> (by the \<open>catch\<close> that makes them).
\<close>

datatype log_site = PollingError | ThreadPollingError | ImageDownloadError

datatype event =
    GetChannelHistory jsstring jsstring
  | GetThreadReplies jsstring jsstring jsstring
  | PostMessage jsstring jsstring "jsstring option"
  | DownloadImage SlackFile
  | Execute ClaudeExecuteOptions ClaudeExecuteResult
  | LoggedError log_site js_error

text \<open>
  The state of the process. \<open>threadSessions\<close> is a \<open>Map\<close>, which keeps its keys in
  insertion order, and its values are objects shared by reference: it maps a key to
  the address of a session object, and \<open>sessionObjects\<close> is the store of these objects
  (\<open>allocated\<close> is the next free address). \<open>calls\<close> is the list of events so far, and
  \<open>world\<close> is the state of everything outside the process.
\<close>

record 'w Bot =
  config :: AppConfig
  lastTimestamp :: jsstring
  botUserId :: "jsstring option"
  processedMessages :: "jsstring set"
  threadSessions :: "(jsstring \<times> nat) list"
  sessionObjects :: "nat \<Rightarrow> ThreadSession"
  allocated :: nat
  threadLastChecked :: "jsstring \<Rightarrow> jsstring option"
  calls :: "event list"
  world :: 'w

text \<open>
  The environment. The four methods of the Slack client and
  \<open>executeClaudeCodeWithSession\<close> act on the world and return a value or throw
  (\<open>Inl\<close>); the execution never throws, its \<open>catch\<close> turns every failure into a result.
  \<open>parseFloat\<close> and \<open>Number.prototype.toString\<close> are parameters too: a number is
  \<open>None\<close> for NaN and otherwise a value of a linear order \<open>'n\<close>.

  \<open>whilePending\<close> is what the event loop does to the process while a call of the
  Slack client is pending: the other callbacks it runs before the awaited promise
  settles. It is the identity when nothing else runs.
\<close>

record ('w, 'n) environment =
  getChannelHistory :: "jsstring \<Rightarrow> jsstring \<Rightarrow> 'w \<Rightarrow> (js_error + SlackMessage list) \<times> 'w"
  getThreadReplies :: "jsstring \<Rightarrow> jsstring \<Rightarrow> jsstring \<Rightarrow> 'w \<Rightarrow> (js_error + SlackMessage list) \<times> 'w"
  postMessage :: "jsstring \<Rightarrow> jsstring \<Rightarrow> jsstring option \<Rightarrow> 'w \<Rightarrow> (js_error + unit) \<times> 'w"
  downloadImage :: "SlackFile \<Rightarrow> 'w \<Rightarrow> (js_error + jsstring) \<times> 'w"
  executeClaudeCodeWithSession :: "ClaudeExecuteOptions \<Rightarrow> 'w \<Rightarrow> ClaudeExecuteResult \<times> 'w"
  parseFloat :: "jsstring \<Rightarrow> 'n option"
  numberToString :: "'n option \<Rightarrow> jsstring"
  whilePending :: "'w Bot \<Rightarrow> 'w Bot"

definition serial :: "('w, 'n) environment \<Rightarrow> ('w, 'n) environment" where
  "serial env = env\<lparr>whilePending := (\<lambda>s. s)\<rparr>"

subsection \<open>Calls to the outside\<close>

text \<open>
  A pending call: the request acts on the world, the event loop runs whatever else is
  due, and the caller resumes with the answer.
\<close>

definition awaitCall :: "('w, 'n) environment \<Rightarrow> ('w \<Rightarrow> 'r \<times> 'w) \<Rightarrow> 'w Bot \<Rightarrow> 'r \<times> 'w Bot" where
  "awaitCall env request s =
     (case request (world s) of (r, w) \<Rightarrow> (r, whilePending env (s\<lparr>world := w\<rparr>)))"

text \<open>
  \<open>await m; k\<close>: when the awaited call throws, the exception leaves the function and
  the rest is skipped.
\<close>

definition await :: "('s \<Rightarrow> (js_error + 'a) \<times> 's) \<Rightarrow> ('a \<Rightarrow> 's \<Rightarrow> (js_error + 'b) \<times> 's)
    \<Rightarrow> 's \<Rightarrow> (js_error + 'b) \<times> 's" where
  "await m k s = (case m s of (Inl err, s') \<Rightarrow> (Inl err, s') | (Inr a, s') \<Rightarrow> k a s')"

definition record_call :: "event \<Rightarrow> 'w Bot \<Rightarrow> 'w Bot" where
  "record_call ev s = s\<lparr>calls := calls s @ [ev]\<rparr>"

definition slack_getChannelHistory ::
  "('w, 'n) environment \<Rightarrow> jsstring \<Rightarrow> jsstring \<Rightarrow> 'w Bot \<Rightarrow> (js_error + SlackMessage list) \<times> 'w Bot" where
  "slack_getChannelHistory env channelId oldest s =
     awaitCall env (getChannelHistory env channelId oldest)
       (record_call (GetChannelHistory channelId oldest) s)"

definition slack_getThreadReplies ::
  "('w, 'n) environment \<Rightarrow> jsstring \<Rightarrow> jsstring \<Rightarrow> jsstring \<Rightarrow> 'w Bot
     \<Rightarrow> (js_error + SlackMessage list) \<times> 'w Bot" where
  "slack_getThreadReplies env channelId threadTs oldest s =
     awaitCall env (getThreadReplies env channelId threadTs oldest)
       (record_call (GetThreadReplies channelId threadTs oldest) s)"

text \<open>
  \<open>slackClient.postMessage\<close>: the event holds the text the coordinator passes, before
  the client converts Markdown.
\<close>

definition slack_postMessage ::
  "('w, 'n) environment \<Rightarrow> jsstring \<Rightarrow> jsstring \<Rightarrow> jsstring option \<Rightarrow> 'w Bot
     \<Rightarrow> (js_error + unit) \<times> 'w Bot" where
  "slack_postMessage env channelId txt threadTs s =
     awaitCall env (postMessage env channelId txt threadTs)
       (record_call (PostMessage channelId txt threadTs) s)"

text \<open>
  \<open>slackClient.downloadImage\<close> throws at once when the file has no \<open>url_private\<close>
  (the message of the error, in Japanese in the source, is left empty).
\<close>

definition slack_downloadImage ::
  "('w, 'n) environment \<Rightarrow> SlackFile \<Rightarrow> 'w Bot \<Rightarrow> (js_error + jsstring) \<times> 'w Bot" where
  "slack_downloadImage env file s =
     (if \<not> truthyStr (url_private file) then (Inl (Thrown []), record_call (DownloadImage file) s)
      else awaitCall env (downloadImage env file) (record_call (DownloadImage file) s))"

text \<open>
  \<open>executeClaudeCodeWithSession\<close> runs the tool with \<open>execSync\<close>, which blocks the event
  loop: nothing else runs during the call.
\<close>

definition runClaude ::
  "('w, 'n) environment \<Rightarrow> ClaudeExecuteOptions \<Rightarrow> 'w Bot \<Rightarrow> ClaudeExecuteResult \<times> 'w Bot" where
  "runClaude env options s =
     (case executeClaudeCodeWithSession env options (world s) of
        (r, w) \<Rightarrow> (r, record_call (Execute options r) (s\<lparr>world := w\<rparr>)))"

definition logError :: "log_site \<Rightarrow> js_error \<Rightarrow> 'w Bot \<Rightarrow> 'w Bot" where
  "logError site err s = record_call (LoggedError site err) s"

subsection \<open>The reply text\<close>

text \<open>
  \<open>FILE_OPERATION_LABELS\<close>: the labels are U+4F5C U+6210 for create, U+7DE8 U+96C6 for
  edit, U+524A U+9664 for delete and U+64CD U+4F5C for unknown.
\<close>

definition FILE_OPERATION_LABELS :: "(jsstring \<times> jsstring) list" where
  "FILE_OPERATION_LABELS =
     [(str ''create'', [0x4F5C, 0x6210]),
      (str ''edit'', [0x7DE8, 0x96C6]),
      (str ''delete'', [0x524A, 0x9664]),
      (str ''unknown'', [0x64CD, 0x4F5C])]"

text \<open>
  \<open>formatFileOperations\<close>. Every label is a non-empty string, so
  \<open>FILE_OPERATION_LABELS[file.type] || file.type\<close> falls back to \<open>file.type\<close> exactly
  when the table has no entry. \<open>substring\<close> past the end gives the empty string, as
  \<open>drop\<close> does. A line is the bullet U+2022, \<open> [\<close>, the label, \<open>] \<close> and the path; the
  heading is two newlines, \<open>*\<close>, ten code units of Japanese ending in a colon, \<open>*\<close>
  and a newline.
\<close>

definition fileLine :: "jsstring \<Rightarrow> jsstring FileOperation \<Rightarrow> jsstring" where
  "fileLine projectPath' file =
     (let label = (case map_of FILE_OPERATION_LABELS (type file) of
                     Some l \<Rightarrow> l
                   | None \<Rightarrow> type file);
          relativePath = (if startsWith (filePath file) projectPath'
                          then drop (length projectPath' + 1) (filePath file)
                          else filePath file)
      in [0x2022] @ str '' ['' @ label @ str ''] '' @ relativePath)"

definition filesHeading :: jsstring where
  "filesHeading =
     [0xA, 0xA, 0x2A, 0x5909, 0x66F4, 0x3055, 0x308C, 0x305F, 0x30D5, 0x30A1, 0x30A4, 0x30EB,
      0x3A, 0x2A, 0xA]"

definition formatFileOperations :: "jsstring FileOperation list \<Rightarrow> jsstring \<Rightarrow> jsstring" where
  "formatFileOperations fs projectPath' =
     (if length fs = 0 then []
      else filesHeading @ join [newline] (map (fileLine projectPath') fs))"

text \<open>
  The literals of the two handlers: the placeholder for an empty output (six code
  units), the notice posted before the execution, the truncation marker (a newline,
  three dots, and two Japanese characters in parentheses: eight code units), the error
  report, and the reply for an unknown project.
\<close>

definition noOutput :: jsstring where
  "noOutput = [0xFF08, 0x51FA, 0x529B, 0x306A, 0x3057, 0xFF09]"

definition processingNotice :: jsstring where
  "processingNotice = [0x51E6, 0x7406, 0x4E2D, 0x2E, 0x2E, 0x2E]"

definition truncationMarker :: jsstring where
  "truncationMarker = [0xA, 0x2E, 0x2E, 0x2E, 0x28, 0x7701, 0x7565, 0x29]"

definition errorReport :: "jsstring \<Rightarrow> jsstring \<Rightarrow> jsstring" where
  "errorReport err out =
     [0x30A8, 0x30E9, 0x30FC, 0x3A, 0xA] @ err @ [0xA, 0xA, 0x51FA, 0x529B, 0x3A, 0xA] @ out"

definition projectNotFound :: "jsstring \<Rightarrow> jsstring" where
  "projectNotFound projectName' =
     [0x30A8, 0x30E9, 0x30FC, 0x3A, 0x20, 0x30D7, 0x30ED, 0x30B8, 0x30A7, 0x30AF, 0x30C8, 0x20, 0x22]
     @ projectName'
     @ [0x22, 0x20, 0x304C, 0x898B, 0x3064, 0x304B, 0x308A, 0x307E, 0x305B, 0x3093]"

text \<open>
  The text of the reply, computed by the same statements in \<open>handleMessage\<close> and in
  \<open>handleThreadReply\<close>: first the answer or the error report, then the list of files
  (\<open>untruncatedText\<close>), and last the cut at 3900 code units (\<open>truncateForSlack\<close>).
\<close>

definition untruncatedText :: "ClaudeExecuteResult \<Rightarrow> jsstring \<Rightarrow> jsstring" where
  "untruncatedText r projectPath' =
     (let answer = (if output r \<noteq> [] then output r else noOutput);
          responseText = (if \<not> success r \<and> truthyStr (error r)
                          then errorReport (the (error r)) (output r)
                          else answer)
      in case ClaudeExecuteResult.modifiedFiles r of
           None \<Rightarrow> responseText
         | Some fs \<Rightarrow>
             if 0 < length fs then responseText @ formatFileOperations fs projectPath'
             else responseText)"

definition truncateForSlack :: "jsstring \<Rightarrow> jsstring" where
  "truncateForSlack responseText =
     (if 3900 < length responseText then take 3900 responseText @ truncationMarker
      else responseText)"

definition responseText :: "ClaudeExecuteResult \<Rightarrow> jsstring \<Rightarrow> jsstring" where
  "responseText r projectPath' = truncateForSlack (untruncatedText r projectPath')"

text \<open>\<open>s.endsWith(p)\<close>, to say that a text ends with the marker.\<close>

definition endsWith :: "jsstring \<Rightarrow> jsstring \<Rightarrow> bool" where
  "endsWith s p = startsWith (rev s) (rev p)"

subsection \<open>The two handlers\<close>

text \<open>\<open>Map.prototype.set\<close>: a key that is present keeps its place.\<close>

fun mapSet :: "('k \<times> 'v) list \<Rightarrow> 'k \<Rightarrow> 'v \<Rightarrow> ('k \<times> 'v) list" where
  "mapSet [] k v = [(k, v)]"
| "mapSet ((k', v') # kvs) k v = (if k' = k then (k, v) # kvs else (k', v') # mapSet kvs k v)"

definition getSessionKey :: "jsstring \<Rightarrow> jsstring \<Rightarrow> jsstring" where
  "getSessionKey channelId threadTs = channelId @ str '':'' @ threadTs"

text \<open>
  The loop that downloads the images of a message, run over \<open>message.files\<close> when that
  is defined: a download that throws is logged and the file is dropped.
\<close>

fun downloadImages ::
  "('w, 'n) environment \<Rightarrow> SlackFile list \<Rightarrow> jsstring list \<Rightarrow> 'w Bot \<Rightarrow> jsstring list \<times> 'w Bot" where
  "downloadImages env [] imagePaths s = (imagePaths, s)"
| "downloadImages env (file # rest) imagePaths s =
     (if isImageFile file then
        (case slack_downloadImage env file s of
           (Inr path, s') \<Rightarrow> downloadImages env rest (imagePaths @ [path]) s'
         | (Inl err, s') \<Rightarrow> downloadImages env rest imagePaths (logError ImageDownloadError err s'))
      else downloadImages env rest imagePaths s)"

definition markProcessed :: "jsstring \<Rightarrow> 'w Bot \<Rightarrow> 'w Bot" where
  "markProcessed t s = s\<lparr>processedMessages := insert t (processedMessages s)\<rparr>"

text \<open>
  \<open>handleMessage\<close>. At the end it stores a new session object under the key of the
  thread and sets the thread's \<open>threadLastChecked\<close>.
\<close>

definition rememberThread ::
  "jsstring \<Rightarrow> ThreadSession \<Rightarrow> jsstring \<Rightarrow> 'w Bot \<Rightarrow> 'w Bot" where
  "rememberThread sessionKey session messageTs s =
     s\<lparr>sessionObjects := (sessionObjects s)(allocated s := session),
       allocated := Suc (allocated s),
       threadSessions := mapSet (threadSessions s) sessionKey (allocated s),
       threadLastChecked := (threadLastChecked s)(sessionKey \<mapsto> messageTs)\<rparr>"

definition handleMessage ::
  "('w, 'n) environment \<Rightarrow> SlackMessage \<Rightarrow> jsstring \<Rightarrow> 'w Bot \<Rightarrow> (js_error + unit) \<times> 'w Bot" where
  "handleMessage env message channelId s =
     (if ts message \<in> processedMessages s then (Inr (), s)
      else if user message = botUserId s then (Inr (), markProcessed (ts message) s)
      else
        (let defaultProject = (case channels (config s) of
                                 None \<Rightarrow> None
                               | Some chs \<Rightarrow> map_of chs channelId)
         in case parseCommand message defaultProject of
              None \<Rightarrow> (Inr (), s)
            | Some command \<Rightarrow>
                (let s1 = markProcessed (ts message) s;
                     found = map_of (projects (config s1)) (ParsedCommand.projectName command)
                 in if \<not> truthyStr found then
                      slack_postMessage env channelId
                        (projectNotFound (ParsedCommand.projectName command)) (Some (ts message)) s1
                    else
                      (let projectPath = the found
                       in await (slack_postMessage env channelId processingNotice (Some (ts message)))
                            (\<lambda>_ s2.
                               case downloadImages env (filesOf message) [] s2 of
                                 (imagePaths, s3) \<Rightarrow>
                               case runClaude env
                                      \<lparr>prompt = ParsedCommand.prompt command,
                                       cwd = projectPath,
                                       images = (if 0 < length imagePaths then Some imagePaths else None),
                                       resumeSessionId = None,
                                       systemPrompt = claude_systemPrompt (config s3),
                                       additionalAllowedTools = None\<rparr> s3 of
                                 (r, s4) \<Rightarrow>
                               await (slack_postMessage env channelId
                                        (responseText r projectPath) (Some (ts message)))
                                 (\<lambda>_ s5.
                                    (Inr (),
                                     rememberThread (getSessionKey channelId (ts message))
                                       \<lparr>ThreadSession.projectName = ParsedCommand.projectName command,
                                        projectPath = projectPath,
                                        ThreadSession.sessionId = ClaudeExecuteResult.sessionId r\<rparr>
                                       (ts message) s5))
                                 s4)
                            s1))))"

text \<open>
  \<open>prompt.replace(/<@[A-Z0-9]+>/g, '')\<close>: scanning from the left, every \<open><@\<close> followed by
  a run of capitals and digits and then \<open>>\<close> is removed. \<open>mentionLength\<close> is the length
  of the match at the head of a string, and \<open>removeMentionsFrom\<close> first skips the code
  units of a match that are still to be skipped.
\<close>

definition isMentionIdUnit :: "nat \<Rightarrow> bool" where
  "isMentionIdUnit c \<longleftrightarrow> (0x41 \<le> c \<and> c \<le> 0x5A) \<or> (0x30 \<le> c \<and> c \<le> 0x39)"

definition mentionLength :: "jsstring \<Rightarrow> nat option" where
  "mentionLength s =
     (if startsWith s (str ''<@'') then
        (let ident = takeWhile isMentionIdUnit (drop 2 s);
             rest = dropWhile isMentionIdUnit (drop 2 s)
         in if ident \<noteq> [] \<and> startsWith rest (str ''>'') then Some (length ident + 3) else None)
      else None)"

fun removeMentionsFrom :: "nat \<Rightarrow> jsstring \<Rightarrow> jsstring" where
  "removeMentionsFrom skip [] = []"
| "removeMentionsFrom skip (c # cs) =
     (if 0 < skip then removeMentionsFrom (skip - 1) cs
      else (case mentionLength (c # cs) of
              Some n \<Rightarrow> removeMentionsFrom (n - 1) cs
            | None \<Rightarrow> c # removeMentionsFrom 0 cs))"

definition removeMentions :: "jsstring \<Rightarrow> jsstring" where
  "removeMentions s = removeMentionsFrom 0 s"

text \<open>
  \<open>handleThreadReply\<close>. The parameter \<open>session\<close> is the address of the session object:
  the handler reads its fields when it uses them and assigns \<open>session.sessionId\<close> in
  place, before it stores the same object under the key again.
\<close>

definition handleThreadReply ::
  "('w, 'n) environment \<Rightarrow> SlackMessage \<Rightarrow> jsstring \<Rightarrow> jsstring \<Rightarrow> nat \<Rightarrow> 'w Bot
     \<Rightarrow> (js_error + unit) \<times> 'w Bot" where
  "handleThreadReply env message channelId threadTs session s =
     (if ts message \<in> processedMessages s then (Inr (), s)
      else if user message = botUserId s then (Inr (), markProcessed (ts message) s)
      else
        (let s1 = markProcessed (ts message) s
         in case text message of
              None \<Rightarrow> (Inr (), s1)
            | Some t \<Rightarrow>
                if trim t = [] then (Inr (), s1)
                else
                  (let cleanPrompt = trim (removeMentions (trim t))
                   in if cleanPrompt = [] then (Inr (), s1)
                      else
                        await (slack_postMessage env channelId processingNotice (Some threadTs))
                          (\<lambda>_ s2.
                             case downloadImages env (filesOf message) [] s2 of
                               (imagePaths, s3) \<Rightarrow>
                             case runClaude env
                                    \<lparr>prompt = cleanPrompt,
                                     cwd = projectPath (sessionObjects s3 session),
                                     images = (if 0 < length imagePaths then Some imagePaths else None),
                                     resumeSessionId = ThreadSession.sessionId (sessionObjects s3 session),
                                     systemPrompt = claude_systemPrompt (config s3),
                                     additionalAllowedTools = None\<rparr> s3 of
                               (r, s4) \<Rightarrow>
                             await (slack_postMessage env channelId
                                      (responseText r (projectPath (sessionObjects s4 session)))
                                      (Some threadTs))
                               (\<lambda>_ s5.
                                  (Inr (),
                                   if truthyStr (ClaudeExecuteResult.sessionId r) then
                                     s5\<lparr>sessionObjects := (sessionObjects s5)
                                           (session := (sessionObjects s5 session)
                                              \<lparr>ThreadSession.sessionId := ClaudeExecuteResult.sessionId r\<rparr>),
                                        threadSessions :=
                                          mapSet (threadSessions s5) (getSessionKey channelId threadTs) session\<rparr>
                                   else s5))
                               s4)
                          s1)))"

subsection \<open>Polling\<close>

text \<open>
  \<open>Math.max(...xs.map((m) => parseFloat(m.ts))).toString()\<close> for a list with first
  element \<open>m\<close>: \<open>Math.max\<close> is NaN as soon as one argument is.
\<close>

definition maxNumber :: "'n::linorder option \<Rightarrow> 'n option \<Rightarrow> 'n option" where
  "maxNumber a b = (case a of None \<Rightarrow> None
                    | Some x \<Rightarrow> (case b of None \<Rightarrow> None | Some y \<Rightarrow> Some (max x y)))"

definition latestTs :: "('w, 'n::linorder) environment \<Rightarrow> SlackMessage \<Rightarrow> SlackMessage list \<Rightarrow> jsstring" where
  "latestTs env m ms =
     numberToString env
       (foldl maxNumber (parseFloat env (ts m)) (map (\<lambda>x. parseFloat env (ts x)) ms))"

text \<open>The loop \<open>for (const message of messages) await this.handleMessage(message, channelId)\<close>.\<close>

fun handleMessages ::
  "('w, 'n) environment \<Rightarrow> SlackMessage list \<Rightarrow> jsstring \<Rightarrow> 'w Bot \<Rightarrow> (js_error + unit) \<times> 'w Bot" where
  "handleMessages env [] channelId s = (Inr (), s)"
| "handleMessages env (message # rest) channelId s =
     (case handleMessage env message channelId s of
        (Inl err, s') \<Rightarrow> (Inl err, s')
      | (Inr _, s') \<Rightarrow> handleMessages env rest channelId s')"

text \<open>
  \<open>pollChannel\<close>: the lower bound of the fetch is \<open>this.lastTimestamp\<close>, read when the
  call is made.
\<close>

definition pollChannel ::
  "('w, 'n::linorder) environment \<Rightarrow> jsstring \<Rightarrow> 'w Bot \<Rightarrow> (js_error + unit) \<times> 'w Bot" where
  "pollChannel env channelId s =
     await (slack_getChannelHistory env channelId (lastTimestamp s))
       (\<lambda>messages.
          await (handleMessages env messages channelId)
            (\<lambda>_ s'. (Inr (),
                      case messages of
                        [] \<Rightarrow> s'
                      | m # ms \<Rightarrow> s'\<lparr>lastTimestamp := latestTs env m ms\<rparr>)))
       s"

text \<open>
  The loop over the replies of one thread: the reply whose \<open>ts\<close> is the thread's is
  skipped.
\<close>

fun handleReplies ::
  "('w, 'n) environment \<Rightarrow> SlackMessage list \<Rightarrow> jsstring \<Rightarrow> jsstring \<Rightarrow> nat \<Rightarrow> 'w Bot
     \<Rightarrow> (js_error + unit) \<times> 'w Bot" where
  "handleReplies env [] channelId threadTs session s = (Inr (), s)"
| "handleReplies env (reply # rest) channelId threadTs session s =
     (if ts reply = threadTs then handleReplies env rest channelId threadTs session s
      else
        (case handleThreadReply env reply channelId threadTs session s of
           (Inl err, s') \<Rightarrow> (Inl err, s')
         | (Inr _, s') \<Rightarrow> handleReplies env rest channelId threadTs session s'))"

text \<open>
  One iteration of the loop of \<open>pollActiveThreads\<close>, with its \<open>try\<close> and \<open>catch\<close>:
  \<open>threadLastChecked.get(sessionKey) || threadTs\<close> is the lower bound.
\<close>

definition pollThread ::
  "('w, 'n::linorder) environment \<Rightarrow> jsstring \<Rightarrow> jsstring \<Rightarrow> nat \<Rightarrow> 'w Bot \<Rightarrow> 'w Bot" where
  "pollThread env channelId threadTs session s =
     (let sessionKey = getSessionKey channelId threadTs;
          lastChecked = (if truthyStr (threadLastChecked s sessionKey)
                         then the (threadLastChecked s sessionKey) else threadTs)
      in case await (slack_getThreadReplies env channelId threadTs lastChecked)
                (\<lambda>replies s1.
                   handleReplies env replies channelId threadTs session
                     (case replies of
                        [] \<Rightarrow> s1
                      | m # ms \<Rightarrow>
                          s1\<lparr>threadLastChecked :=
                               (threadLastChecked s1)(sessionKey \<mapsto> latestTs env m ms)\<rparr>))
                s of
           (Inl err, s') \<Rightarrow> logError ThreadPollingError err s'
         | (Inr _, s') \<Rightarrow> s')"

fun pollThreads ::
  "('w, 'n::linorder) environment \<Rightarrow> jsstring \<Rightarrow> (jsstring \<times> nat) list \<Rightarrow> 'w Bot \<Rightarrow> 'w Bot" where
  "pollThreads env channelId [] s = s"
| "pollThreads env channelId ((threadTs, session) # rest) s =
     pollThreads env channelId rest (pollThread env channelId threadTs session s)"

text \<open>
  \<open>pollActiveThreads\<close>: the threads are the entries of \<open>threadSessions\<close> whose key
  starts with the channel and a colon, taken when the function starts;
  \<open>key.split(':')[1]\<close> is the piece after the first colon. A key that passed the filter
  has a colon, hence a second piece: the last case is never taken.
\<close>

definition threadTsOfKey :: "jsstring \<Rightarrow> jsstring" where
  "threadTsOfKey key = (case split_on 0x3A key of
                          piece0 # piece1 # pieces \<Rightarrow> piece1
                        | _ \<Rightarrow> [])"

definition activeThreads :: "jsstring \<Rightarrow> 'w Bot \<Rightarrow> (jsstring \<times> nat) list" where
  "activeThreads channelId s =
     map (\<lambda>(key, session). (threadTsOfKey key, session))
       (filter (\<lambda>(key, session). startsWith key (channelId @ str '':'')) (threadSessions s))"

definition pollActiveThreads ::
  "('w, 'n::linorder) environment \<Rightarrow> jsstring \<Rightarrow> 'w Bot \<Rightarrow> 'w Bot" where
  "pollActiveThreads env channelId s = pollThreads env channelId (activeThreads channelId s) s"

text \<open>
  \<open>poll\<close>: the loop over \<open>Object.keys(this.config.channels || {})\<close> inside one \<open>try\<close>,
  whose \<open>catch\<close> logs the error. \<open>pollActiveThreads\<close> does not throw.
\<close>

fun pollChannels ::
  "('w, 'n::linorder) environment \<Rightarrow> jsstring list \<Rightarrow> 'w Bot \<Rightarrow> (js_error + unit) \<times> 'w Bot" where
  "pollChannels env [] s = (Inr (), s)"
| "pollChannels env (channelId # rest) s =
     (case pollChannel env channelId s of
        (Inl err, s') \<Rightarrow> (Inl err, s')
      | (Inr _, s') \<Rightarrow> pollChannels env rest (pollActiveThreads env channelId s'))"

definition channelIds :: "AppConfig \<Rightarrow> jsstring list" where
  "channelIds cfg = (case channels cfg of None \<Rightarrow> [] | Some chs \<Rightarrow> map fst chs)"

definition poll :: "('w, 'n::linorder) environment \<Rightarrow> 'w Bot \<Rightarrow> 'w Bot" where
  "poll env s =
     (case pollChannels env (channelIds (config s)) s of
        (Inl err, s') \<Rightarrow> logError PollingError err s'
      | (Inr _, s') \<Rightarrow> s')"

text \<open>
  The constructor, given the string \<open>(Date.now() / 1000).toString()\<close>; \<open>start\<close> then
  sets \<open>botUserId\<close> from the connection test. The module starts with empty
  \<open>processedMessages\<close>, \<open>threadSessions\<close> and \<open>threadLastChecked\<close>; no session object
  exists yet, and the content of the store at a free address is never read.
\<close>

definition newBot :: "AppConfig \<Rightarrow> jsstring \<Rightarrow> 'w \<Rightarrow> 'w Bot" where
  "newBot cfg startTime w =
     \<lparr>config = cfg, lastTimestamp = startTime, botUserId = None, processedMessages = {},
      threadSessions = [],
      sessionObjects = (\<lambda>a. \<lparr>ThreadSession.projectName = [], projectPath = [],
                               ThreadSession.sessionId = None\<rparr>),
      allocated = 0, threadLastChecked = (\<lambda>k. None), calls = [], world = w\<rparr>"

definition start :: "jsstring option \<Rightarrow> 'w Bot \<Rightarrow> 'w Bot" where
  "start userId s = s\<lparr>botUserId := userId\<rparr>"

text \<open>
  \<open>startPolling\<close>: \<open>setInterval(() => this.poll(), interval)\<close>. The callback of the
  timer is \<open>poll\<close> and nothing else: no flag is tested and none is set. When the timer
  is due while a call of the Slack client is pending, the event loop runs the
  callback's tick before the pending call settles; \<open>timerFires due env\<close> is the
  environment in which this happens at the calls where \<open>due\<close> holds, the tick of the
  callback itself running undisturbed.
\<close>

definition timerCallback :: "('w, 'n::linorder) environment \<Rightarrow> 'w Bot \<Rightarrow> 'w Bot" where
  "timerCallback env s = poll env s"

definition timerFires ::
  "('w Bot \<Rightarrow> bool) \<Rightarrow> ('w, 'n::linorder) environment \<Rightarrow> ('w, 'n) environment" where
  "timerFires due env =
     env\<lparr>whilePending := (\<lambda>s. if due s then timerCallback (serial env) s else s)\<rparr>"

subsection \<open>Vocabulary for the properties\<close>

text \<open>The events that the loop downloading the images produces.\<close>

fun isDownloadEvent :: "event \<Rightarrow> bool" where
  "isDownloadEvent (DownloadImage file) = True"
| "isDownloadEvent (LoggedError ImageDownloadError err) = True"
| "isDownloadEvent ev = False"

text \<open>\<open>a < b\<close> on numbers: false as soon as one of them is NaN.\<close>

definition numLess :: "'n::linorder option \<Rightarrow> 'n option \<Rightarrow> bool" where
  "numLess a b = (case a of None \<Rightarrow> False
                  | Some x \<Rightarrow> (case b of None \<Rightarrow> False | Some y \<Rightarrow> x < y))"

text \<open>
  The state that the ticks share: the ledger of processed messages, the sessions with
  their objects, and the watermarks of the threads and of the channels.
\<close>

definition sharedState ::
  "'w Bot \<Rightarrow> jsstring set \<times> (jsstring \<times> nat) list \<times> (nat \<Rightarrow> ThreadSession)
     \<times> (jsstring \<Rightarrow> jsstring option) \<times> jsstring" where
  "sharedState s =
     (processedMessages s, threadSessions s, sessionObjects s, threadLastChecked s, lastTimestamp s)"

text \<open>
  The history fetches of a trace, in order: the channel and the lower bound of each.
\<close>

fun historyFetches :: "event list \<Rightarrow> (jsstring \<times> jsstring) list" where
  "historyFetches [] = []"
| "historyFetches (GetChannelHistory channelId oldest # evs) = (channelId, oldest) # historyFetches evs"
| "historyFetches (ev # evs) = historyFetches evs"

text \<open>A lower bound that reads as a number, and one not below \<open>M\<close>.\<close>

definition notBelow :: "('w, 'n::linorder) environment \<Rightarrow> 'n \<Rightarrow> jsstring \<Rightarrow> bool" where
  "notBelow env M oldest = (case parseFloat env oldest of None \<Rightarrow> False | Some v \<Rightarrow> M \<le> v)"

text \<open>
  A Slack that honours \<open>oldest\<close>: the history of a channel holds only messages whose
  timestamp is above the bound it was asked with.
\<close>

definition honoursOldest :: "('w, 'n::linorder) environment \<Rightarrow> bool" where
  "honoursOldest env \<longleftrightarrow>
     (\<forall>c oldest w msgs w'. getChannelHistory env c oldest w = (Inr msgs, w') \<longrightarrow>
        (\<forall>x\<in>set msgs. numLess (parseFloat env oldest) (parseFloat env (ts x))))"

section \<open>Sample data\<close>

text \<open>
  Sample lines for the examples below, each with the value \<open>JSON.parse\<close> returns on it.
  \<open>sampleParse\<close> agrees with \<open>JSON.parse\<close> on these lines and on \<open>not json\<close>, on
  which \<open>JSON.parse\<close> throws; no other line is given to it.
\<close>

definition sampleLines :: "(jsstring \<times> json) list" where
  \<open>sampleLines =
    [(str ''{"type":"result","result":"first","session_id":"s1"}'',
      JObj [(str ''type'', JStr (str ''result'')), (str ''result'', JStr (str ''first'')),
            (str ''session_id'', JStr (str ''s1''))]),
     (str ''{"type":"result","result":"second","session_id":"s2"}'',
      JObj [(str ''type'', JStr (str ''result'')), (str ''result'', JStr (str ''second'')),
            (str ''session_id'', JStr (str ''s2''))]),
     (str ''{"tool_use_result":{"type":"create","filePath":"/srv/demo/a.ts"}}'',
      JObj [(str ''tool_use_result'',
             JObj [(str ''type'', JStr (str ''create'')), (str ''filePath'', JStr (str ''/srv/demo/a.ts''))])]),
     (str ''{"tool_use_result":{"type":"update","filePath":"/srv/demo/a.ts"}}'',
      JObj [(str ''tool_use_result'',
             JObj [(str ''type'', JStr (str ''update'')), (str ''filePath'', JStr (str ''/srv/demo/a.ts''))])])]\<close>

definition sampleParse :: "jsstring \<Rightarrow> json option" where
  "sampleParse = map_of sampleLines"

text \<open>
  A sample configuration with the project \<open>demo\<close> at \<open>/srv/demo\<close> and two channels, and a
  sample environment: no message anywhere, every post and download succeeds, and the
  execution succeeds with the answer \<open>done\<close>, the session id \<open>s1\<close> and one file created,
  \<open>/srv/demo/a.ts\<close>. Numbers are natural numbers: \<open>sampleParseFloat\<close> and
  \<open>sampleToString\<close> agree with \<open>parseFloat\<close> and \<open>toString\<close> on the strings of decimal
  digits (without leading zero) and the natural numbers, the only timestamps of the
  examples.
\<close>

definition demoConfig :: AppConfig where
  "demoConfig =
     \<lparr>pollingInterval = 10000,
      projects = [(str ''demo'', str ''/srv/demo'')],
      channels = Some [(str ''C1'', str ''demo''), (str ''C2'', str ''demo'')],
      claude_systemPrompt = None\<rparr>"

definition sampleParseFloat :: "jsstring \<Rightarrow> nat option" where
  "sampleParseFloat s =
     (if s \<noteq> [] \<and> list_all (\<lambda>c. 48 \<le> c \<and> c \<le> 57) s
      then Some (foldl (\<lambda>a c. 10 * a + (c - 48)) 0 s)
      else None)"

fun decimal :: "nat \<Rightarrow> jsstring" where
  "decimal n = (if n < 10 then [48 + n] else decimal (n div 10) @ [48 + n mod 10])"

declare decimal.simps [simp del]

definition sampleToString :: "nat option \<Rightarrow> jsstring" where
  "sampleToString x = (case x of None \<Rightarrow> str ''NaN'' | Some n \<Rightarrow> decimal n)"

definition sampleResult :: ClaudeExecuteResult where
  "sampleResult =
     \<lparr>success = True, output = str ''done'', error = None,
      ClaudeExecuteResult.sessionId = Some (str ''s1''),
      ClaudeExecuteResult.modifiedFiles =
        Some [\<lparr>type = str ''create'', filePath = str ''/srv/demo/a.ts''\<rparr>]\<rparr>"

definition sampleEnv :: "(nat, nat) environment" where
  "sampleEnv =
     \<lparr>getChannelHistory = (\<lambda>channelId oldest w. (Inr [], w)),
      getThreadReplies = (\<lambda>channelId threadTs oldest w. (Inr [], w)),
      postMessage = (\<lambda>channelId txt threadTs w. (Inr (), w)),
      downloadImage = (\<lambda>file w. (Inr (str ''/tmp/image''), w)),
      executeClaudeCodeWithSession = (\<lambda>options w. (sampleResult, w)),
      parseFloat = sampleParseFloat,
      numberToString = sampleToString,
      whilePending = (\<lambda>s. s)\<rparr>"

definition sampleMessage :: "jsstring \<Rightarrow> jsstring \<Rightarrow> jsstring \<Rightarrow> SlackMessage" where
  "sampleMessage t u body =
     \<lparr>ts = t, channel = str ''C1'', user = Some u, text = Some body, files = None, thread_ts = None\<rparr>"

text \<open>
  For the examples on threads: an execution that answers a resumed session \<open>s1\<close> with
  the new session id \<open>s2\<close> and anything else with \<open>s3\<close>, and a state in which the thread
  of the message \<open>5\<close> in channel \<open>C1\<close> has a session with the id \<open>s1\<close>.
\<close>

definition resumingEnv :: "(nat, nat) environment" where
  "resumingEnv =
     sampleEnv\<lparr>executeClaudeCodeWithSession :=
       (\<lambda>options w.
          (\<lparr>success = True, output = str ''done'', error = None,
            ClaudeExecuteResult.sessionId =
              (if resumeSessionId options = Some (str ''s1'') then Some (str ''s2'')
               else Some (str ''s3'')),
            ClaudeExecuteResult.modifiedFiles = None\<rparr>, w))\<rparr>"

definition threadState :: "nat Bot" where
  "threadState =
     rememberThread (str ''C1:5'')
       \<lparr>ThreadSession.projectName = str ''demo'', projectPath = str ''/srv/demo'',
        ThreadSession.sessionId = Some (str ''s1'')\<rparr>
       (str ''5'')
       (start (Some (str ''UBOT'')) (newBot demoConfig (str ''0'') 0))"

text \<open>For the example of a failing fetch: the history of channel \<open>C1\<close> cannot be fetched.\<close>

definition failingHistoryEnv :: "(nat, nat) environment" where
  "failingHistoryEnv =
     sampleEnv\<lparr>getChannelHistory :=
       (\<lambda>channelId oldest w.
          if channelId = str ''C1'' then (Inl (Thrown (str ''ratelimited'')), w) else (Inr [], w))\<rparr>"

text \<open>
  For the example of the watermark: a Slack with the messages \<open>7\<close> and \<open>5\<close> in channel
  \<open>C1\<close> and the messages \<open>9\<close> and \<open>3\<close> in every other channel, none of them a command,
  whose history returns the messages newer than \<open>oldest\<close>, the newest first.
\<close>

definition inChannel :: "jsstring \<Rightarrow> SlackMessage \<Rightarrow> SlackMessage" where
  "inChannel channelId message = message\<lparr>channel := channelId\<rparr>"

definition watermarkEnv :: "(nat, nat) environment" where
  "watermarkEnv =
     sampleEnv\<lparr>getChannelHistory :=
       (\<lambda>channelId oldest w.
          (Inr (filter (\<lambda>x. numLess (sampleParseFloat oldest) (sampleParseFloat (ts x)))
                  (if channelId = str ''C1''
                   then [sampleMessage (str ''7'') (str ''U1'') (str ''world''),
                         sampleMessage (str ''5'') (str ''U1'') (str ''hello'')]
                   else [inChannel channelId (sampleMessage (str ''9'') (str ''U1'') (str ''world'')),
                         inChannel channelId (sampleMessage (str ''3'') (str ''U1'') (str ''hello''))])),
           w))\<rparr>"

text \<open>
  For the example of two overlapping ticks: one channel, \<open>C1\<close>. The world counts the
  requests for the history: the first request is answered with the message \<open>5\<close>, the
  second, made after the message \<open>7\<close> has arrived, with \<open>5\<close> and \<open>7\<close>; both messages are
  the bot's own. The timer is due while the first request is pending.
\<close>

definition racingEnv :: "(nat, nat) environment" where
  "racingEnv =
     sampleEnv\<lparr>getChannelHistory :=
       (\<lambda>channelId oldest w.
          (Inr (if w = 0 then [sampleMessage (str ''5'') (str ''UBOT'') (str ''done'')]
                else if w = 1 then [sampleMessage (str ''5'') (str ''UBOT'') (str ''done''),
                                    sampleMessage (str ''7'') (str ''UBOT'') (str ''done'')]
                else []),
           Suc w))\<rparr>"

definition timerDue :: "nat Bot \<Rightarrow> bool" where
  "timerDue s \<longleftrightarrow> world s = 1"

definition racingStart :: "nat Bot" where
  "racingStart =
     start (Some (str ''UBOT''))
       (newBot (demoConfig\<lparr>channels := Some [(str ''C1'', str ''demo'')]\<rparr>) (str ''0'') 0)"

text \<open>
  For the example of a message fetched late: the world counts the requests for a
  history. Channel \<open>C1\<close> has the message \<open>5\<close>, and from the second request on the
  message \<open>7\<close> as well; channel \<open>C2\<close> has the command \<open>6\<close>. The history returns the
  messages newer than \<open>oldest\<close>.
\<close>

definition lateEnv :: "(nat, nat) environment" where
  "lateEnv =
     sampleEnv\<lparr>getChannelHistory :=
       (\<lambda>channelId oldest w.
          (Inr (filter (\<lambda>x. numLess (sampleParseFloat oldest) (sampleParseFloat (ts x)))
                  (if channelId = str ''C1''
                   then (if w = 0 then [sampleMessage (str ''5'') (str ''U1'') (str ''hello'')]
                         else [sampleMessage (str ''7'') (str ''U1'') (str ''world''),
                               sampleMessage (str ''5'') (str ''U1'') (str ''hello'')])
                   else [inChannel channelId
                           (sampleMessage (str ''6'') (str ''U1'') (str ''!claude demo fix the bug''))])),
           Suc w))\<rparr>"


section \<open>Properties of the decoder\<close>

lemmas decoder_eval = parseStreamJsonOutput_def emptyOutput_def outputLines_def split_on_def newline_def str_def
  trim_def isWhiteSpace_def decodeLine_def lineBody_def pushedFile_def orUnknown_def orEmpty_def
  sampleParse_def sampleLines_def isResultLine_def

lemma splitFrom_append:
  "splitFrom sep piece (a @ sep # b) = splitFrom sep piece a @ splitFrom sep [] b"
  by (induction a arbitrary: piece) auto

lemma splitFrom_no_sep: "sep \<notin> set s \<Longrightarrow> splitFrom sep piece s = [piece @ s]"
  by (induction s arbitrary: piece) auto

lemma split_on_append: "split_on sep (a @ sep # b) = split_on sep a @ split_on sep b"
  by (simp add: split_on_def splitFrom_append)

lemma split_on_no_sep: "sep \<notin> set s \<Longrightarrow> split_on sep s = [s]"
  by (simp add: split_on_def splitFrom_no_sep)

lemma split_on_join:
  "ls \<noteq> [] \<Longrightarrow> \<forall>l\<in>set ls. sep \<notin> set l \<Longrightarrow> split_on sep (join [sep] ls) = ls"
proof (induction "[sep]" ls rule: join.induct)
  case 1
  then show ?case by simp
next
  case (2 x)
  then show ?case by (simp add: split_on_no_sep)
next
  case (3 x y ys)
  then show ?case by (simp add: split_on_append split_on_no_sep)
qed

text \<open>
  Every string is the join of its own lines, none of which holds a newline: a
  statement about all lists of such lines is a statement about all raw outputs.
\<close>

lemma splitFrom_ne: "splitFrom sep piece s \<noteq> []"
  by (induction s arbitrary: piece) auto

lemma join_Cons: "ys \<noteq> [] \<Longrightarrow> join sep (x # ys) = x @ sep @ join sep ys"
  by (cases ys) simp_all

lemma join_splitFrom: "join [sep] (splitFrom sep piece s) = piece @ s"
  by (induction s arbitrary: piece) (simp_all add: join_Cons splitFrom_ne)

lemma join_split_on: "join [sep] (split_on sep s) = s"
  by (simp add: split_on_def join_splitFrom)

lemma splitFrom_no_sep_inside:
  "sep \<notin> set piece \<Longrightarrow> l \<in> set (splitFrom sep piece s) \<Longrightarrow> sep \<notin> set l"
  by (induction sep piece s rule: splitFrom.induct) (auto split: if_splits)

lemma split_on_no_sep_inside: "l \<in> set (split_on sep s) \<Longrightarrow> sep \<notin> set l"
  using splitFrom_no_sep_inside [of sep "[]" l s] by (simp add: split_on_def)

lemma outputLines_join:
  assumes "\<forall>l\<in>set ls. newline \<notin> set l"
  shows "outputLines (join [newline] ls) = filter (\<lambda>line. trim line \<noteq> []) ls"
proof (cases "ls = []")
  case True
  then show ?thesis by (simp add: outputLines_def trim_def split_on_def)
next
  case False
  with assms show ?thesis by (simp add: outputLines_def split_on_join)
qed

lemma decodeLine_other:
  assumes "\<not> isResultLine JSON_parse x" and "trim x \<noteq> []"
  shows "StreamJsonOutput.result (decodeLine JSON_parse acc x) = StreamJsonOutput.result acc"
    and "StreamJsonOutput.sessionId (decodeLine JSON_parse acc x) = StreamJsonOutput.sessionId acc"
  using assms
  by (auto simp: decodeLine_def lineBody_def isResultLine_def split: option.splits)

lemma foldl_decodeLine_other:
  assumes "\<forall>x\<in>set xs. \<not> isResultLine JSON_parse x \<and> trim x \<noteq> []"
  shows "StreamJsonOutput.result (foldl (decodeLine JSON_parse) acc xs) = StreamJsonOutput.result acc
       \<and> StreamJsonOutput.sessionId (foldl (decodeLine JSON_parse) acc xs) = StreamJsonOutput.sessionId acc"
  using assms by (induction xs arbitrary: acc) (simp_all add: decodeLine_other)

lemma decodeLine_result:
  assumes "JSON_parse l = Some j" and "getProp j (str ''type'') = Some (JStr (str ''result''))"
  shows "StreamJsonOutput.result (decodeLine JSON_parse acc l) = orEmpty (getProp j (str ''result''))"
    and "StreamJsonOutput.sessionId (decodeLine JSON_parse acc l) = getProp j (str ''session_id'')"
  using assms
  by (auto simp: decodeLine_def lineBody_def split: option.splits)

text \<open>
  C2 (last write wins). Take any output whose lines are \<open>pre\<close>, then a line \<open>l\<close> that
  the loop reaches and that parses to a record of type \<open>result\<close>, then lines \<open>post\<close>
  none of which is such a line: whatever \<open>result\<close> records \<open>pre\<close> holds, the decoder
  returns the text payload (\<open>json.result || ''\<close>) and the \<open>session_id\<close> of \<open>l\<close>, the
  last one.
\<close>

theorem last_result_record_wins:
  assumes "\<forall>x\<in>set (pre @ l # post). newline \<notin> set x"
    and "trim l \<noteq> []"
    and "JSON_parse l = Some j"
    and "getProp j (str ''type'') = Some (JStr (str ''result''))"
    and "\<forall>x\<in>set post. \<not> isResultLine JSON_parse x"
  shows "StreamJsonOutput.result (parseStreamJsonOutput JSON_parse (join [newline] (pre @ l # post)))
           = orEmpty (getProp j (str ''result''))
       \<and> StreamJsonOutput.sessionId (parseStreamJsonOutput JSON_parse (join [newline] (pre @ l # post)))
           = getProp j (str ''session_id'')"
proof -
  let ?D = "decodeLine JSON_parse"
  let ?nb = "\<lambda>line. trim line \<noteq> []"
  let ?init = "emptyOutput"
  let ?mid = "?D (foldl ?D ?init (filter ?nb pre)) l"
  have lines: "outputLines (join [newline] (pre @ l # post)) = filter ?nb pre @ l # filter ?nb post"
    using assms(1,2) by (simp add: outputLines_join)
  have rest: "\<forall>x\<in>set (filter ?nb post). \<not> isResultLine JSON_parse x \<and> trim x \<noteq> []"
    using assms(5) by simp
  have "parseStreamJsonOutput JSON_parse (join [newline] (pre @ l # post))
          = foldl ?D ?mid (filter ?nb post)"
    by (simp add: parseStreamJsonOutput_def lines)
  then show ?thesis
    using foldl_decodeLine_other [OF rest, of ?mid] decodeLine_result [of JSON_parse l j] assms(3,4)
    by simp
qed

text \<open>Witness for C2: two \<open>result\<close> records, then a tool-result line.\<close>

theorem last_result_record_wins_witness:
  \<open>StreamJsonOutput.result (parseStreamJsonOutput sampleParse (join [newline]
       [str ''{"type":"result","result":"first","session_id":"s1"}'',
        str ''{"type":"result","result":"second","session_id":"s2"}'',
        str ''{"tool_use_result":{"type":"create","filePath":"/srv/demo/a.ts"}}'']))
     = JStr (str ''second'')
   \<and> StreamJsonOutput.sessionId (parseStreamJsonOutput sampleParse (join [newline]
       [str ''{"type":"result","result":"first","session_id":"s1"}'',
        str ''{"type":"result","result":"second","session_id":"s2"}'',
        str ''{"tool_use_result":{"type":"create","filePath":"/srv/demo/a.ts"}}'']))
     = Some (JStr (str ''s2''))\<close>
  using last_result_record_wins [of
      \<open>[str ''{"type":"result","result":"first","session_id":"s1"}'']\<close>
      \<open>str ''{"type":"result","result":"second","session_id":"s2"}''\<close>
      \<open>[str ''{"tool_use_result":{"type":"create","filePath":"/srv/demo/a.ts"}}'']\<close>
      sampleParse
      \<open>JObj [(str ''type'', JStr (str ''result'')), (str ''result'', JStr (str ''second'')),
            (str ''session_id'', JStr (str ''s2''))]\<close>]
  by (simp add: decoder_eval)

lemma decodeLine_unparsable: "JSON_parse bad = None \<Longrightarrow> decodeLine JSON_parse acc bad = acc"
  by (simp add: decodeLine_def)

text \<open>
  C3 (malformed lines). Inserting a line on which \<open>JSON.parse\<close> throws anywhere among
  the lines of an output changes nothing of what the decoder returns: result text,
  session id and file mutations are those of the other lines, and the inserted line
  adds no file mutation.
\<close>

theorem malformed_line_discarded:
  assumes "\<forall>x\<in>set (pre @ bad # post). newline \<notin> set x"
    and "JSON_parse bad = None"
  shows "parseStreamJsonOutput JSON_parse (join [newline] (pre @ bad # post))
           = parseStreamJsonOutput JSON_parse (join [newline] (pre @ post))"
proof -
  have "\<forall>x\<in>set (pre @ post). newline \<notin> set x"
    using assms(1) by auto
  then show ?thesis
    using assms by (simp add: parseStreamJsonOutput_def outputLines_join decodeLine_unparsable)
qed

text \<open>Witness for C3: \<open>not json\<close> between a tool-result line and a \<open>result\<close> line.\<close>

theorem malformed_line_discarded_witness:
  \<open>sampleParse (str ''not json'') = None
   \<and> parseStreamJsonOutput sampleParse (join [newline]
       [str ''{"tool_use_result":{"type":"create","filePath":"/srv/demo/a.ts"}}'',
        str ''not json'',
        str ''{"type":"result","result":"first","session_id":"s1"}''])
     = \<lparr>StreamJsonOutput.result = JStr (str ''first''),
        StreamJsonOutput.sessionId = Some (JStr (str ''s1'')),
        StreamJsonOutput.modifiedFiles = [\<lparr>type = JStr (str ''create''), filePath = JStr (str ''/srv/demo/a.ts'')\<rparr>]\<rparr>\<close>
  using malformed_line_discarded [of
      \<open>[str ''{"tool_use_result":{"type":"create","filePath":"/srv/demo/a.ts"}}'']\<close>
      \<open>str ''not json''\<close>
      \<open>[str ''{"type":"result","result":"first","session_id":"s1"}'']\<close>
      sampleParse]
  by (simp add: decoder_eval)

lemma emptyOutput_simps [simp]:
  "StreamJsonOutput.result emptyOutput = JStr []"
  "StreamJsonOutput.sessionId emptyOutput = None"
  "StreamJsonOutput.modifiedFiles emptyOutput = []"
  by (simp_all add: emptyOutput_def)

lemma modifiedFiles_decodeLine:
  "StreamJsonOutput.modifiedFiles (decodeLine JSON_parse acc x)
     = StreamJsonOutput.modifiedFiles acc @ StreamJsonOutput.modifiedFiles (decodeLine JSON_parse emptyOutput x)"
  by (auto simp: decodeLine_def lineBody_def split: option.splits)

lemma modifiedFiles_foldl:
  "StreamJsonOutput.modifiedFiles (foldl (decodeLine JSON_parse) acc xs)
     = StreamJsonOutput.modifiedFiles acc @ StreamJsonOutput.modifiedFiles (foldl (decodeLine JSON_parse) emptyOutput xs)"
proof (induction xs arbitrary: acc)
  case Nil
  then show ?case by simp
next
  case (Cons x xs)
  let ?init = "emptyOutput"
  have "StreamJsonOutput.modifiedFiles (foldl (decodeLine JSON_parse) acc (x # xs))
          = StreamJsonOutput.modifiedFiles (decodeLine JSON_parse acc x)
            @ StreamJsonOutput.modifiedFiles (foldl (decodeLine JSON_parse) ?init xs)"
    using Cons.IH [of "decodeLine JSON_parse acc x"] by simp
  also have "\<dots> = StreamJsonOutput.modifiedFiles acc @ StreamJsonOutput.modifiedFiles (decodeLine JSON_parse ?init x)
            @ StreamJsonOutput.modifiedFiles (foldl (decodeLine JSON_parse) ?init xs)"
    using modifiedFiles_decodeLine [of JSON_parse acc x] by simp
  also have "\<dots> = StreamJsonOutput.modifiedFiles acc @ StreamJsonOutput.modifiedFiles (foldl (decodeLine JSON_parse) ?init (x # xs))"
    using Cons.IH [of "decodeLine JSON_parse ?init x"] by simp
  finally show ?case .
qed

lemma modifiedFiles_decodeLine_tool:
  assumes "JSON_parse l = Some j"
    and "getProp j (str ''tool_use_result'') = Some tur" and "truthy tur"
    and "getProp tur (str ''filePath'') = Some fp" and "truthy fp"
  shows "StreamJsonOutput.modifiedFiles (decodeLine JSON_parse acc l)
           = StreamJsonOutput.modifiedFiles acc @ [\<lparr>type = orUnknown (getProp tur (str ''type'')), filePath = fp\<rparr>]"
  using assms by (auto simp: decodeLine_def lineBody_def pushedFile_def Let_def)

text \<open>
  C8, as the code has it. A line that carries a truthy \<open>tool_use_result\<close> with a truthy
  \<open>filePath\<close> records exactly one file mutation, between those of the lines before and
  after it. Its kind is the declared \<open>type\<close> itself whenever that is truthy, recognised
  or not, and \<open>unknown\<close> only when \<open>type\<close> is missing or falsy.
\<close>

theorem tool_result_kind:
  assumes "\<forall>x\<in>set (pre @ l # post). newline \<notin> set x"
    and "trim l \<noteq> []"
    and "JSON_parse l = Some j"
    and "getProp j (str ''tool_use_result'') = Some tur" and "truthy tur"
    and "getProp tur (str ''filePath'') = Some fp" and "truthy fp"
  shows "StreamJsonOutput.modifiedFiles (parseStreamJsonOutput JSON_parse (join [newline] (pre @ l # post)))
           = StreamJsonOutput.modifiedFiles (parseStreamJsonOutput JSON_parse (join [newline] pre))
             @ [\<lparr>type = (case getProp tur (str ''type'') of
                            None \<Rightarrow> JStr (str ''unknown'')
                          | Some k \<Rightarrow> if truthy k then k else JStr (str ''unknown'')),
                  filePath = fp\<rparr>]
             @ StreamJsonOutput.modifiedFiles (parseStreamJsonOutput JSON_parse (join [newline] post))"
proof -
  let ?D = "decodeLine JSON_parse"
  let ?nb = "\<lambda>line. trim line \<noteq> []"
  let ?init = "emptyOutput"
  let ?f = "\<lparr>type = orUnknown (getProp tur (str ''type'')), filePath = fp\<rparr>"
  have nl: "\<forall>x\<in>set pre. newline \<notin> set x" "\<forall>x\<in>set post. newline \<notin> set x"
    using assms(1) by auto
  have lines: "outputLines (join [newline] (pre @ l # post)) = filter ?nb pre @ l # filter ?nb post"
    using assms(1,2) by (simp add: outputLines_join)
  have "StreamJsonOutput.modifiedFiles (parseStreamJsonOutput JSON_parse (join [newline] (pre @ l # post)))
          = StreamJsonOutput.modifiedFiles (foldl ?D (?D (foldl ?D ?init (filter ?nb pre)) l) (filter ?nb post))"
    by (simp add: parseStreamJsonOutput_def lines)
  also have "\<dots> = StreamJsonOutput.modifiedFiles (?D (foldl ?D ?init (filter ?nb pre)) l)
                   @ StreamJsonOutput.modifiedFiles (foldl ?D ?init (filter ?nb post))"
    by (rule modifiedFiles_foldl)
  also have "\<dots> = StreamJsonOutput.modifiedFiles (foldl ?D ?init (filter ?nb pre)) @ [?f]
                   @ StreamJsonOutput.modifiedFiles (foldl ?D ?init (filter ?nb post))"
    using modifiedFiles_decodeLine_tool [of JSON_parse l j tur fp] assms(3-7) by simp
  finally show ?thesis
    using nl by (simp add: parseStreamJsonOutput_def outputLines_join orUnknown_def)
qed

text \<open>Witness for C8: a \<open>create\<close> line, an \<open>update\<close> line and a \<open>result\<close> line.\<close>

theorem tool_result_kind_witness:
  \<open>StreamJsonOutput.modifiedFiles (parseStreamJsonOutput sampleParse (join [newline]
       [str ''{"tool_use_result":{"type":"create","filePath":"/srv/demo/a.ts"}}'',
        str ''{"tool_use_result":{"type":"update","filePath":"/srv/demo/a.ts"}}'',
        str ''{"type":"result","result":"first","session_id":"s1"}'']))
     = [\<lparr>type = JStr (str ''create''), filePath = JStr (str ''/srv/demo/a.ts'')\<rparr>,
        \<lparr>type = JStr (str ''update''), filePath = JStr (str ''/srv/demo/a.ts'')\<rparr>]\<close>
  using tool_result_kind [of
      \<open>[str ''{"tool_use_result":{"type":"create","filePath":"/srv/demo/a.ts"}}'']\<close>
      \<open>str ''{"tool_use_result":{"type":"update","filePath":"/srv/demo/a.ts"}}''\<close>
      \<open>[str ''{"type":"result","result":"first","session_id":"s1"}'']\<close>
      sampleParse
      \<open>JObj [(str ''tool_use_result'',
             JObj [(str ''type'', JStr (str ''update'')), (str ''filePath'', JStr (str ''/srv/demo/a.ts''))])]\<close>
      \<open>JObj [(str ''type'', JStr (str ''update'')), (str ''filePath'', JStr (str ''/srv/demo/a.ts''))]\<close>
      \<open>JStr (str ''/srv/demo/a.ts'')\<close>]
  by (simp add: decoder_eval)

text \<open>
  Counterexample to C8 as stated: the type \<open>update\<close> is none of create, edit, delete,
  and it is recorded as the kind, not replaced by \<open>unknown\<close>.
\<close>

theorem unrecognized_kind_counterexample:
  \<open>StreamJsonOutput.modifiedFiles (parseStreamJsonOutput sampleParse
       (str ''{"tool_use_result":{"type":"update","filePath":"/srv/demo/a.ts"}}''))
     = [\<lparr>type = JStr (str ''update''), filePath = JStr (str ''/srv/demo/a.ts'')\<rparr>]
   \<and> JStr (str ''update'')
       \<notin> {JStr (str ''create''), JStr (str ''edit''), JStr (str ''delete''), JStr (str ''unknown'')}\<close>
  by (simp add: decoder_eval)

section \<open>Properties of the command parser\<close>

lemmas parser_eval = parseCommand_def COMMAND_PATTERN_def extractImageUrls_def isImageFile_def
  truthyStr_def trim_def isWhiteSpace_def str_def

text \<open>
  C7, as the code has it. \<open>imageUrls\<close> is absent exactly when the message has no
  attachment whose mime type begins with \<open>image/\<close>. Otherwise it is the list of the
  private URLs of those image attachments that carry one, in order, and this list is
  empty when none of them does.
\<close>

theorem image_urls_of_image_files:
  "extractImageUrls message =
     (if \<exists>file\<in>set (filesOf message). isImageFile file
      then Some (map (\<lambda>file. the (url_private file))
                  (filter (\<lambda>file. isImageFile file \<and> truthyStr (url_private file)) (filesOf message)))
      else None)"
proof (cases "files message")
  case None
  then show ?thesis by (simp add: extractImageUrls_def filesOf_def)
next
  case (Some fs)
  have "filter (\<lambda>file. truthyStr (url_private file)) (filter isImageFile fs)
          = filter (\<lambda>file. isImageFile file \<and> truthyStr (url_private file)) fs"
    by (simp add: conj_commute)
  moreover have "(filter isImageFile fs = []) = (\<not> (\<exists>file\<in>set fs. isImageFile file))"
    by (simp add: filter_empty_conv)
  ultimately show ?thesis
    using Some by (auto simp: extractImageUrls_def filesOf_def Let_def)
qed

text \<open>
  Witness for C7: an image with a URL, a text file with a URL and an image without one.
\<close>

theorem image_urls_of_image_files_witness:
  "extractImageUrls
     \<lparr>ts = str ''1.0'', channel = str ''C1'', user = None, text = None,
      files = Some [\<lparr>file_id = str ''F1'', name = None, mimetype = Some (str ''image/png''),
                      url_private = Some (str ''https://files/1'')\<rparr>,
                    \<lparr>file_id = str ''F2'', name = None, mimetype = Some (str ''text/plain''),
                      url_private = Some (str ''https://files/2'')\<rparr>,
                    \<lparr>file_id = str ''F3'', name = None, mimetype = Some (str ''image/gif''),
                      url_private = None\<rparr>],
      thread_ts = None\<rparr>
   = Some [str ''https://files/1'']"
  using image_urls_of_image_files [of
     "\<lparr>ts = str ''1.0'', channel = str ''C1'', user = None, text = None,
      files = Some [\<lparr>file_id = str ''F1'', name = None, mimetype = Some (str ''image/png''),
                      url_private = Some (str ''https://files/1'')\<rparr>,
                    \<lparr>file_id = str ''F2'', name = None, mimetype = Some (str ''text/plain''),
                      url_private = Some (str ''https://files/2'')\<rparr>,
                    \<lparr>file_id = str ''F3'', name = None, mimetype = Some (str ''image/gif''),
                      url_private = None\<rparr>],
      thread_ts = None\<rparr>"]
  by (simp add: filesOf_def isImageFile_def truthyStr_def str_def)

text \<open>
  Counterexample to C7 as stated: one attachment of type \<open>image/png\<close> without a private
  URL gives the empty list, not an absent field.
\<close>

theorem image_without_url_counterexample:
  "extractImageUrls
     \<lparr>ts = str ''1.0'', channel = str ''C1'', user = None, text = None,
      files = Some [\<lparr>file_id = str ''F1'', name = None, mimetype = Some (str ''image/png''),
                      url_private = None\<rparr>],
      thread_ts = None\<rparr>
   = Some []"
  by (simp add: parser_eval)

section \<open>Properties of the reply text\<close>

lemma length_truncationMarker [simp]: "length truncationMarker = 8"
  by (simp add: truncationMarker_def)

lemma length_truncateForSlack: "length (truncateForSlack t) \<le> 3908"
  by (simp add: truncateForSlack_def)

lemma startsWith_append [simp]: "startsWith (p @ s) p"
  by (induction p) auto

lemma endsWith_append [simp]: "endsWith (a @ p) p"
  by (simp add: endsWith_def)

text \<open>
  C4, as the code has it. For every execution result and project path the text of the
  reply has at most 3900 code units plus the eight of the marker. When the text with
  the file list appended is longer than 3900 code units, the reply is its first 3900
  code units followed by the whole marker; otherwise it is that text unchanged, so
  that the reply then ends with the marker only if that text already did. The file
  list is part of the text before the cut.
\<close>

theorem reply_truncation:
  "length (responseText r p) \<le> 3900 + length truncationMarker
   \<and> (3900 < length (untruncatedText r p) \<longrightarrow>
        responseText r p = take 3900 (untruncatedText r p) @ truncationMarker)
   \<and> (length (untruncatedText r p) \<le> 3900 \<longrightarrow> responseText r p = untruncatedText r p)
   \<and> (\<forall>fs. ClaudeExecuteResult.modifiedFiles r = Some fs \<longrightarrow> fs \<noteq> [] \<longrightarrow>
        (\<exists>answer. untruncatedText r p = answer @ formatFileOperations fs p))"
  by (auto simp: responseText_def truncateForSlack_def untruncatedText_def Let_def)

text \<open>Witness for C4: an answer of 5000 code units.\<close>

theorem reply_truncation_witness:
  "responseText \<lparr>success = True, output = replicate 5000 97, error = None,
                  ClaudeExecuteResult.sessionId = None, ClaudeExecuteResult.modifiedFiles = None\<rparr>
     (str ''/srv/demo'')
   = replicate 3900 97 @ truncationMarker
   \<and> length (responseText \<lparr>success = True, output = replicate 5000 97, error = None,
                  ClaudeExecuteResult.sessionId = None, ClaudeExecuteResult.modifiedFiles = None\<rparr>
     (str ''/srv/demo'')) \<le> 3908"
  using reply_truncation [of "\<lparr>success = True, output = replicate 5000 97, error = None,
                  ClaudeExecuteResult.sessionId = None, ClaudeExecuteResult.modifiedFiles = None\<rparr>"
                "str ''/srv/demo''"]
  by (simp add: untruncatedText_def)

text \<open>
  Counterexample to C4 as stated: an answer of ten code units that itself ends with
  the marker is posted as it is. The marker is present in the posted text although
  the text before truncation did not exceed the threshold.
\<close>

theorem marker_without_truncation_counterexample:
  "endsWith (responseText \<lparr>success = True, output = str ''ok'' @ truncationMarker, error = None,
                  ClaudeExecuteResult.sessionId = None, ClaudeExecuteResult.modifiedFiles = None\<rparr>
               (str ''/srv/demo'')) truncationMarker
   \<and> \<not> 3900 < length (untruncatedText \<lparr>success = True, output = str ''ok'' @ truncationMarker,
                  error = None, ClaudeExecuteResult.sessionId = None,
                  ClaudeExecuteResult.modifiedFiles = None\<rparr> (str ''/srv/demo''))"
  by (simp add: responseText_def truncateForSlack_def untruncatedText_def str_def endsWith_def
        truncationMarker_def)


section \<open>Properties of the handlers\<close>

lemma serial_simps [simp]:
  "whilePending (serial env) = (\<lambda>s. s)"
  "getChannelHistory (serial env) = getChannelHistory env"
  "getThreadReplies (serial env) = getThreadReplies env"
  "postMessage (serial env) = postMessage env"
  "downloadImage (serial env) = downloadImage env"
  "executeClaudeCodeWithSession (serial env) = executeClaudeCodeWithSession env"
  "parseFloat (serial env) = parseFloat env"
  "numberToString (serial env) = numberToString env"
  by (simp_all add: serial_def)

lemma slack_postMessage_serial:
  "slack_postMessage (serial env) c t th s =
     (fst (postMessage env c t th (world s)),
      s\<lparr>calls := calls s @ [PostMessage c t th], world := snd (postMessage env c t th (world s))\<rparr>)"
  by (simp add: slack_postMessage_def awaitCall_def record_call_def split: prod.splits)

lemma slack_downloadImage_serial:
  "\<exists>w'. snd (slack_downloadImage (serial env) file s) = s\<lparr>calls := calls s @ [DownloadImage file], world := w'\<rparr>"
  by (auto simp: slack_downloadImage_def awaitCall_def record_call_def split: prod.splits intro: exI [of _ "world s"])

lemma runClaude_eq:
  "runClaude env opts s =
     (fst (executeClaudeCodeWithSession env opts (world s)),
      s\<lparr>calls := calls s @ [Execute opts (fst (executeClaudeCodeWithSession env opts (world s)))],
        world := snd (executeClaudeCodeWithSession env opts (world s))\<rparr>)"
  by (simp add: runClaude_def record_call_def split: prod.splits)

lemma downloadImages_serial:
  "\<exists>dl w'. snd (downloadImages (serial env) fs acc s) = s\<lparr>calls := calls s @ dl, world := w'\<rparr>
     \<and> (\<forall>e\<in>set dl. isDownloadEvent e)"
proof (induction fs arbitrary: acc s)
  case Nil
  have "s = s\<lparr>calls := calls s @ [], world := world s\<rparr>" by simp
  then show ?case by (metis downloadImages.simps(1) empty_iff list.set(1) snd_conv)
next
  case (Cons f fs)
  show ?case
  proof (cases "isImageFile f")
    case False
    then show ?thesis using Cons.IH [of acc s] by simp
  next
    case True
    obtain w1 where d: "snd (slack_downloadImage (serial env) f s)
                          = s\<lparr>calls := calls s @ [DownloadImage f], world := w1\<rparr>"
      using slack_downloadImage_serial [of env f s] by auto
    let ?s1 = "s\<lparr>calls := calls s @ [DownloadImage f], world := w1\<rparr>"
    show ?thesis
    proof (cases "fst (slack_downloadImage (serial env) f s)")
      case (Inr path)
      then have eq: "downloadImages (serial env) (f # fs) acc s
                       = downloadImages (serial env) fs (acc @ [path]) ?s1"
        using True d by (auto split: prod.splits)
      obtain dl w' where "snd (downloadImages (serial env) fs (acc @ [path]) ?s1)
                            = ?s1\<lparr>calls := calls ?s1 @ dl, world := w'\<rparr>"
                     and "\<forall>e\<in>set dl. isDownloadEvent e"
        using Cons.IH [of "acc @ [path]" ?s1] by auto
      then have "snd (downloadImages (serial env) (f # fs) acc s)
                   = s\<lparr>calls := calls s @ (DownloadImage f # dl), world := w'\<rparr>
                 \<and> (\<forall>e\<in>set (DownloadImage f # dl). isDownloadEvent e)"
        using eq by simp
      then show ?thesis by (intro exI)
    next
      case (Inl err)
      let ?s2 = "logError ImageDownloadError err ?s1"
      have eq: "downloadImages (serial env) (f # fs) acc s = downloadImages (serial env) fs acc ?s2"
        using True d Inl by (auto split: prod.splits)
      obtain dl w' where "snd (downloadImages (serial env) fs acc ?s2)
                            = ?s2\<lparr>calls := calls ?s2 @ dl, world := w'\<rparr>"
                     and "\<forall>e\<in>set dl. isDownloadEvent e"
        using Cons.IH [of acc ?s2] by auto
      then have "snd (downloadImages (serial env) (f # fs) acc s)
                   = s\<lparr>calls := calls s @ (DownloadImage f # LoggedError ImageDownloadError err # dl),
                        world := w'\<rparr>
                 \<and> (\<forall>e\<in>set (DownloadImage f # LoggedError ImageDownloadError err # dl).
                       isDownloadEvent e)"
        using eq by (simp add: logError_def record_call_def)
      then show ?thesis by (intro exI)
    qed
  qed
qed

text \<open>
  \<open>handleMessage\<close> on a command for a known project, when nothing else runs and the
  notice can be posted: the notice, the downloads, one execution in the project's
  directory with the prompt of the command and no session to resume, and then the
  reply, whose text is \<open>responseText\<close> of the result of that execution.
\<close>

lemma handleMessage_serial_command:
  assumes "ts m \<notin> processedMessages s" and "user m \<noteq> botUserId s"
    and "parseCommand m (case channels (config s) of None \<Rightarrow> None | Some chs \<Rightarrow> map_of chs c)
           = Some command"
    and "map_of (projects (config s)) (ParsedCommand.projectName command) = Some path"
    and "path \<noteq> []"
    and "fst (postMessage env c processingNotice (Some (ts m)) (world s)) = Inr u"
  shows "\<exists>dl opts r.
           calls (snd (handleMessage (serial env) m c s))
             = calls s @ PostMessage c processingNotice (Some (ts m)) # dl
                 @ [Execute opts r, PostMessage c (responseText r path) (Some (ts m))]
           \<and> (\<forall>e\<in>set dl. isDownloadEvent e)
           \<and> prompt opts = ParsedCommand.prompt command \<and> cwd opts = path
           \<and> resumeSessionId opts = None"
proof -
  let ?s1 = "markProcessed (ts m) s"
  let ?p1 = "postMessage env c processingNotice (Some (ts m)) (world s)"
  define s2 where "s2 = ?s1\<lparr>calls := calls s @ [PostMessage c processingNotice (Some (ts m))],
                             world := snd ?p1\<rparr>"
  obtain paths s3 where dl: "downloadImages (serial env) (filesOf m) [] s2 = (paths, s3)"
    by fastforce
  obtain evs w' where s3: "s3 = s2\<lparr>calls := calls s2 @ evs, world := w'\<rparr>"
                  and evs: "\<forall>e\<in>set evs. isDownloadEvent e"
    using downloadImages_serial [of env "filesOf m" "[]" s2] dl by auto
  let ?opts = "\<lparr>prompt = ParsedCommand.prompt command, cwd = path,
                 images = (if 0 < length paths then Some paths else None),
                 resumeSessionId = None, systemPrompt = claude_systemPrompt (config s3),
                 additionalAllowedTools = None\<rparr>"
  let ?r = "fst (executeClaudeCodeWithSession env ?opts (world s3))"
  have "calls (snd (handleMessage (serial env) m c s))
          = calls s @ PostMessage c processingNotice (Some (ts m)) # evs
              @ [Execute ?opts ?r, PostMessage c (responseText ?r path) (Some (ts m))]"
    using assms dl s3
    by (simp add: handleMessage_def Let_def await_def slack_postMessage_serial markProcessed_def
          s2_def runClaude_eq rememberThread_def truthyStr_def split: sum.splits)
  moreover have "prompt ?opts = ParsedCommand.prompt command \<and> cwd ?opts = path
                 \<and> resumeSessionId ?opts = None"
    by simp
  ultimately show ?thesis using evs by blast
qed

text \<open>
  What \<open>handleMessage\<close> does to the outside when nothing else runs: nothing; or the
  reply for an unknown project; or the notice alone, when posting it throws; or the
  notice, the downloads, one execution and then the reply, whose text is
  \<open>responseText\<close> of the result of that execution.
\<close>

lemma handleMessage_serial_events:
  "\<exists>evs. calls (snd (handleMessage (serial env) m c s)) = calls s @ evs \<and>
     (evs = []
      \<or> (\<exists>n. evs = [PostMessage c (projectNotFound n) (Some (ts m))])
      \<or> evs = [PostMessage c processingNotice (Some (ts m))]
      \<or> (\<exists>dl opts r.
            evs = PostMessage c processingNotice (Some (ts m)) # dl
                    @ [Execute opts r, PostMessage c (responseText r (cwd opts)) (Some (ts m))]
            \<and> (\<forall>e\<in>set dl. isDownloadEvent e)))"
proof (cases "ts m \<in> processedMessages s \<or> user m = botUserId s")
  case True
  then have "calls (snd (handleMessage (serial env) m c s)) = calls s @ []"
    by (auto simp: handleMessage_def markProcessed_def)
  then show ?thesis by blast
next
  case False
  let ?dp = "case channels (config s) of None \<Rightarrow> None | Some chs \<Rightarrow> map_of chs c"
  show ?thesis
  proof (cases "parseCommand m ?dp")
    case None
    then have "calls (snd (handleMessage (serial env) m c s)) = calls s @ []"
      using False by (simp add: handleMessage_def)
    then show ?thesis by blast
  next
    case (Some command)
    let ?s1 = "markProcessed (ts m) s"
    let ?found = "map_of (projects (config s)) (ParsedCommand.projectName command)"
    show ?thesis
    proof (cases "truthyStr ?found")
      case False
      then have "calls (snd (handleMessage (serial env) m c s))
                   = calls s @ [PostMessage c (projectNotFound (ParsedCommand.projectName command)) (Some (ts m))]"
        using \<open>\<not> (ts m \<in> processedMessages s \<or> user m = botUserId s)\<close> Some
        by (simp add: handleMessage_def Let_def slack_postMessage_serial markProcessed_def)
      then show ?thesis by blast
    next
      case True
      then obtain path where path: "?found = Some path" "path \<noteq> []"
        by (auto simp: truthyStr_def split: option.splits)
      let ?p1 = "postMessage env c processingNotice (Some (ts m)) (world s)"
      show ?thesis
      proof (cases "fst ?p1")
        case (Inl err)
        then have "calls (snd (handleMessage (serial env) m c s))
                     = calls s @ [PostMessage c processingNotice (Some (ts m))]"
          using \<open>\<not> (ts m \<in> processedMessages s \<or> user m = botUserId s)\<close> Some True
          by (simp add: handleMessage_def Let_def await_def slack_postMessage_serial markProcessed_def)
        then show ?thesis by blast
      next
        case (Inr u)
        obtain dl opts r where
          "calls (snd (handleMessage (serial env) m c s))
             = calls s @ PostMessage c processingNotice (Some (ts m)) # dl
                 @ [Execute opts r, PostMessage c (responseText r path) (Some (ts m))]"
          "\<forall>e\<in>set dl. isDownloadEvent e" "cwd opts = path"
          using handleMessage_serial_command [of m s c command path env u] False Some path Inr
          by auto
        then show ?thesis by auto
      qed
    qed
  qed
qed

text \<open>
  The same for \<open>handleThreadReply\<close>. The execution resumes the session id that the
  session object holds when the handler starts, and when the handler returns normally
  the object holds the session id of the result if that is truthy, and the old one
  otherwise.
\<close>

lemma handleThreadReply_serial_events:
  "\<exists>evs. calls (snd (handleThreadReply (serial env) m c t session s)) = calls s @ evs \<and>
     (evs = []
      \<or> evs = [PostMessage c processingNotice (Some t)]
      \<or> (\<exists>dl opts r.
            evs = PostMessage c processingNotice (Some t) # dl
                    @ [Execute opts r, PostMessage c (responseText r (cwd opts)) (Some t)]
            \<and> (\<forall>e\<in>set dl. isDownloadEvent e)
            \<and> resumeSessionId opts = ThreadSession.sessionId (sessionObjects s session)
            \<and> (fst (handleThreadReply (serial env) m c t session s) = Inr () \<longrightarrow>
                 ThreadSession.sessionId
                   (sessionObjects (snd (handleThreadReply (serial env) m c t session s)) session)
                 = (if truthyStr (ClaudeExecuteResult.sessionId r) then ClaudeExecuteResult.sessionId r
                    else ThreadSession.sessionId (sessionObjects s session)))))"
proof (cases "ts m \<in> processedMessages s \<or> user m = botUserId s")
  case True
  then have "calls (snd (handleThreadReply (serial env) m c t session s)) = calls s @ []"
    by (auto simp: handleThreadReply_def markProcessed_def)
  then show ?thesis by blast
next
  case False
  let ?s1 = "markProcessed (ts m) s"
  show ?thesis
  proof (cases "\<exists>body. text m = Some body \<and> trim body \<noteq> [] \<and> trim (removeMentions (trim body)) \<noteq> []")
    case False
    then have "calls (snd (handleThreadReply (serial env) m c t session s)) = calls s @ []"
      using \<open>\<not> (ts m \<in> processedMessages s \<or> user m = botUserId s)\<close>
      by (auto simp: handleThreadReply_def markProcessed_def Let_def split: option.splits)
    then show ?thesis by blast
  next
    case True
    then obtain body where body: "text m = Some body" "trim body \<noteq> []"
        "trim (removeMentions (trim body)) \<noteq> []"
      by blast
    let ?p1 = "postMessage env c processingNotice (Some t) (world s)"
    define s2 where "s2 = ?s1\<lparr>calls := calls s @ [PostMessage c processingNotice (Some t)],
                               world := snd ?p1\<rparr>"
    show ?thesis
    proof (cases "fst ?p1")
      case (Inl err)
      then have "calls (snd (handleThreadReply (serial env) m c t session s))
                   = calls s @ [PostMessage c processingNotice (Some t)]"
        using \<open>\<not> (ts m \<in> processedMessages s \<or> user m = botUserId s)\<close> body
        by (simp add: handleThreadReply_def Let_def await_def slack_postMessage_serial markProcessed_def)
      then show ?thesis by blast
    next
      case (Inr u)
      obtain paths s3 where dl: "downloadImages (serial env) (filesOf m) [] s2 = (paths, s3)"
        by fastforce
      obtain evs w' where s3: "s3 = s2\<lparr>calls := calls s2 @ evs, world := w'\<rparr>"
                      and evs: "\<forall>e\<in>set evs. isDownloadEvent e"
        using downloadImages_serial [of env "filesOf m" "[]" s2] dl by auto
      let ?opts = "\<lparr>prompt = trim (removeMentions (trim body)),
                     cwd = projectPath (sessionObjects s session),
                     images = (if 0 < length paths then Some paths else None),
                     resumeSessionId = ThreadSession.sessionId (sessionObjects s session),
                     systemPrompt = claude_systemPrompt (config s3),
                     additionalAllowedTools = None\<rparr>"
      let ?r = "fst (executeClaudeCodeWithSession env ?opts (world s3))"
      let ?res = "handleThreadReply (serial env) m c t session s"
      have "calls (snd ?res)
              = calls s @ (PostMessage c processingNotice (Some t) # evs
                  @ [Execute ?opts ?r, PostMessage c (responseText ?r (cwd ?opts)) (Some t)])
            \<and> (fst ?res = Inr () \<longrightarrow>
                 ThreadSession.sessionId (sessionObjects (snd ?res) session)
                 = (if truthyStr (ClaudeExecuteResult.sessionId ?r) then ClaudeExecuteResult.sessionId ?r
                    else ThreadSession.sessionId (sessionObjects s session)))"
        using \<open>\<not> (ts m \<in> processedMessages s \<or> user m = botUserId s)\<close> body Inr dl s3
        by (simp add: handleThreadReply_def Let_def await_def slack_postMessage_serial markProcessed_def
              s2_def runClaude_eq split: sum.splits)
      moreover have "resumeSessionId ?opts = ThreadSession.sessionId (sessionObjects s session)"
        by simp
      ultimately show ?thesis using evs by blast
    qed
  qed
qed

section \<open>The command scenario\<close>


lemmas handler_eval = handleMessage_def handleThreadReply_def await_def slack_postMessage_def
  slack_downloadImage_def awaitCall_def record_call_def runClaude_def logError_def markProcessed_def
  rememberThread_def getSessionKey_def filesOf_def Let_def

lemmas sample_eval = sampleEnv_def sampleResult_def sampleMessage_def demoConfig_def newBot_def start_def
  serial_def






section \<open>Properties of the thread sessions\<close>



lemmas thread_eval = resumingEnv_def threadState_def removeMentions_def mentionLength_def
  isMentionIdUnit_def trim_def isWhiteSpace_def str_def processingNotice_def





section \<open>Properties of the polling\<close>

lemmas poll_eval = poll_def pollChannel_def pollActiveThreads_def activeThreads_def pollThread_def
  threadTsOfKey_def channelIds_def slack_getChannelHistory_def slack_getThreadReplies_def latestTs_def
  maxNumber_def split_on_def sampleParseFloat_def sampleToString_def decimal.simps

text \<open>
  C5 at a failing input. With the channels \<open>C1\<close> and \<open>C2\<close> configured and the history of
  \<open>C1\<close> failing, the tick fetches \<open>C1\<close>, logs the error in the \<open>catch\<close> of \<open>poll\<close> and
  ends: the history of \<open>C2\<close> is not fetched, and no thread is polled.
\<close>

theorem channel_fetch_error_aborts_tick:
  "calls (poll (serial failingHistoryEnv) (start (Some (str ''UBOT'')) (newBot demoConfig (str ''0'') 0)))
     = [GetChannelHistory (str ''C1'') (str ''0''),
        LoggedError PollingError (Thrown (str ''ratelimited''))]
   \<and> channelIds demoConfig = [str ''C1'', str ''C2'']"
  by (simp add: failingHistoryEnv_def poll_eval handler_eval sample_eval str_def)

text \<open>When no fetch fails, the same tick fetches both channels.\<close>

lemma poll_serial_sample:
  "calls (poll (serial sampleEnv) (start (Some (str ''UBOT'')) (newBot demoConfig (str ''0'') 0)))
     = [GetChannelHistory (str ''C1'') (str ''0''), GetChannelHistory (str ''C2'') (str ''0'')]"
  by (simp add: poll_eval handler_eval sample_eval str_def)

text \<open>
  The loop over the threads has its own \<open>try\<close>: a failing fetch of the replies of one
  thread is logged, the thread's \<open>threadLastChecked\<close> stays as it is, and \<open>pollThreads\<close>
  goes on with the next thread.
\<close>

lemma thread_fetch_error_is_caught:
  assumes "getThreadReplies env c t (if truthyStr (threadLastChecked s (getSessionKey c t))
                                      then the (threadLastChecked s (getSessionKey c t)) else t) (world s)
             = (Inl err, w)"
  shows "pollThread (serial env) c t session s
           = s\<lparr>calls := calls s
                   @ [GetThreadReplies c t (if truthyStr (threadLastChecked s (getSessionKey c t))
                                            then the (threadLastChecked s (getSessionKey c t)) else t),
                      LoggedError ThreadPollingError err],
                world := w\<rparr>"
  using assms
  by (simp add: pollThread_def Let_def await_def slack_getThreadReplies_def awaitCall_def
        record_call_def logError_def)

text \<open>A failing fetch of a channel leaves \<open>lastTimestamp\<close> as it is, and \<open>pollChannel\<close> throws.\<close>

lemma channel_fetch_error_leaves_watermark:
  assumes "getChannelHistory env c (lastTimestamp s) (world s) = (Inl err, w)"
  shows "pollChannel (serial env) c s
           = (Inl err, s\<lparr>calls := calls s @ [GetChannelHistory c (lastTimestamp s)], world := w\<rparr>)"
  using assms
  by (simp add: pollChannel_def await_def slack_getChannelHistory_def awaitCall_def record_call_def)


section \<open>The watermark of the channels\<close>

text \<open>
  When nothing else runs, the handlers and the polling of the threads leave
  \<open>lastTimestamp\<close> as it is: only \<open>pollChannel\<close> assigns it.
\<close>

lemma downloadImages_serial_frame [simp]:
  "lastTimestamp (snd (downloadImages (serial env) fs acc s)) = lastTimestamp s"
  using downloadImages_serial [of env fs acc s] by auto

lemma handleMessage_serial_lastTimestamp [simp]:
  "lastTimestamp (snd (handleMessage (serial env) m c s)) = lastTimestamp s"
  by (simp add: handleMessage_def Let_def await_def slack_postMessage_serial runClaude_eq
        markProcessed_def rememberThread_def case_prod_beta split: option.splits sum.splits)

lemma handleThreadReply_serial_lastTimestamp [simp]:
  "lastTimestamp (snd (handleThreadReply (serial env) m c t session s)) = lastTimestamp s"
  by (simp add: handleThreadReply_def Let_def await_def slack_postMessage_serial runClaude_eq
        markProcessed_def case_prod_beta split: option.splits sum.splits)

lemma handleMessages_serial_lastTimestamp [simp]:
  "lastTimestamp (snd (handleMessages (serial env) ms c s)) = lastTimestamp s"
proof (induction ms arbitrary: s)
  case Nil
  then show ?case by simp
next
  case (Cons m ms)
  have "lastTimestamp (snd (handleMessage (serial env) m c s)) = lastTimestamp s"
    by simp
  then show ?case
    using Cons.IH [of "snd (handleMessage (serial env) m c s)"]
    by (simp add: case_prod_beta split: sum.splits)
qed

lemma handleReplies_serial_lastTimestamp [simp]:
  "lastTimestamp (snd (handleReplies (serial env) rs c t session s)) = lastTimestamp s"
proof (induction rs arbitrary: s)
  case Nil
  then show ?case by simp
next
  case (Cons r rs)
  have "lastTimestamp (snd (handleThreadReply (serial env) r c t session s)) = lastTimestamp s"
    by simp
  then show ?case
    using Cons.IH [of s] Cons.IH [of "snd (handleThreadReply (serial env) r c t session s)"]
    by (simp add: case_prod_beta split: sum.splits)
qed

lemma pollThread_serial_lastTimestamp [simp]:
  "lastTimestamp (pollThread (serial env) c t session s) = lastTimestamp s"
  by (simp add: pollThread_def Let_def await_def slack_getThreadReplies_def awaitCall_def
        record_call_def logError_def case_prod_beta split: sum.splits list.splits)

lemma pollThreads_serial_lastTimestamp [simp]:
  "lastTimestamp (pollThreads (serial env) c ths s) = lastTimestamp s"
  by (induction ths arbitrary: s) auto

lemma pollActiveThreads_serial_lastTimestamp [simp]:
  "lastTimestamp (pollActiveThreads (serial env) c s) = lastTimestamp s"
  by (simp add: pollActiveThreads_def)

lemma latestTs_serial [simp]: "latestTs (serial env) m ms = latestTs env m ms"
  by (simp add: latestTs_def)

lemma calls_watermark_update [simp]:
  "calls (case ms of [] \<Rightarrow> s | m # r \<Rightarrow> s\<lparr>lastTimestamp := f m r\<rparr>) = calls s"
  by (cases ms) simp_all

text \<open>
  The history fetches of a trace: the handlers and the polling of the threads add
  none, and \<open>pollChannel\<close> adds one, for its channel and from \<open>lastTimestamp\<close>.
\<close>

lemma historyFetches_append [simp]:
  "historyFetches (xs @ ys) = historyFetches xs @ historyFetches ys"
  by (induction xs rule: historyFetches.induct) simp_all

lemma historyFetches_downloads: "\<forall>e\<in>set dl. isDownloadEvent e \<Longrightarrow> historyFetches dl = []"
  by (induction dl rule: historyFetches.induct) simp_all

lemma downloadImages_serial_fetches [simp]:
  "historyFetches (calls (snd (downloadImages (serial env) fs acc s))) = historyFetches (calls s)"
  using downloadImages_serial [of env fs acc s] by (auto simp: historyFetches_downloads)

lemma handleMessage_serial_fetches [simp]:
  "historyFetches (calls (snd (handleMessage (serial env) m c s))) = historyFetches (calls s)"
  using handleMessage_serial_events [of env m c s] by (auto simp: historyFetches_downloads)

lemma handleThreadReply_serial_fetches [simp]:
  "historyFetches (calls (snd (handleThreadReply (serial env) m c t session s))) = historyFetches (calls s)"
  using handleThreadReply_serial_events [of env m c t session s] by (auto simp: historyFetches_downloads)

lemma handleMessages_serial_fetches [simp]:
  "historyFetches (calls (snd (handleMessages (serial env) ms c s))) = historyFetches (calls s)"
proof (induction ms arbitrary: s)
  case Nil
  then show ?case by simp
next
  case (Cons m ms)
  have "historyFetches (calls (snd (handleMessage (serial env) m c s))) = historyFetches (calls s)"
    by simp
  then show ?case
    using Cons.IH [of "snd (handleMessage (serial env) m c s)"]
    by (simp add: case_prod_beta split: sum.splits)
qed

lemma handleReplies_serial_fetches [simp]:
  "historyFetches (calls (snd (handleReplies (serial env) rs c t session s))) = historyFetches (calls s)"
proof (induction rs arbitrary: s)
  case Nil
  then show ?case by simp
next
  case (Cons r rs)
  have "historyFetches (calls (snd (handleThreadReply (serial env) r c t session s)))
          = historyFetches (calls s)"
    by simp
  then show ?case
    using Cons.IH [of s] Cons.IH [of "snd (handleThreadReply (serial env) r c t session s)"]
    by (simp add: case_prod_beta split: sum.splits)
qed

lemma pollThread_serial_fetches [simp]:
  "historyFetches (calls (pollThread (serial env) c t session s)) = historyFetches (calls s)"
  by (simp add: pollThread_def Let_def await_def slack_getThreadReplies_def awaitCall_def
        record_call_def logError_def case_prod_beta split: sum.splits list.splits)

lemma pollThreads_serial_fetches [simp]:
  "historyFetches (calls (pollThreads (serial env) c ths s)) = historyFetches (calls s)"
  by (induction ths arbitrary: s) auto

lemma pollActiveThreads_serial_fetches [simp]:
  "historyFetches (calls (pollActiveThreads (serial env) c s)) = historyFetches (calls s)"
  by (simp add: pollActiveThreads_def)

lemma pollChannel_serial_fetches:
  "historyFetches (calls (snd (pollChannel (serial env) c s)))
     = historyFetches (calls s) @ [(c, lastTimestamp s)]"
  by (simp add: pollChannel_def await_def slack_getChannelHistory_def awaitCall_def
        record_call_def case_prod_beta split: sum.splits)

text \<open>
  When the fetch returns messages and they are handled without a throw,
  \<open>lastTimestamp\<close> becomes the string of their largest timestamp.
\<close>

lemma pollChannel_serial_watermark:
  assumes "getChannelHistory env c (lastTimestamp s) (world s) = (Inr (m # ms), w)"
    and "pollChannel (serial env) c s = (Inr u, s')"
  shows "lastTimestamp s' = latestTs env m ms"
  using assms
  by (auto simp: pollChannel_def await_def slack_getChannelHistory_def awaitCall_def
        record_call_def case_prod_beta split: sum.splits)

lemma foldl_maxNumber_Max:
  "foldl maxNumber (Some v) (map Some vs) = Some (Max (set (v # vs)))"
proof (induction vs arbitrary: v)
  case Nil
  then show ?case by simp
next
  case (Cons u vs)
  have "Max (insert (max v u) (set vs)) = Max (insert v (insert u (set vs)))"
    by (cases "set vs = {}") (simp_all add: max.assoc)
  then show ?case
    using Cons.IH [of "max v u"] by (simp add: maxNumber_def)
qed

lemma latestTs_Max:
  assumes "\<forall>x\<in>set (m # ms). parseFloat env (ts x) \<noteq> None"
  shows "latestTs env m ms
           = numberToString env (Some (Max ((\<lambda>x. the (parseFloat env (ts x))) ` set (m # ms))))"
proof -
  let ?v = "the (parseFloat env (ts m))"
  let ?vs = "map (\<lambda>x. the (parseFloat env (ts x))) ms"
  have e1: "map (\<lambda>x. parseFloat env (ts x)) ms = map Some ?vs"
    using assms by auto
  have e2: "parseFloat env (ts m) = Some ?v"
    using assms by auto
  have "foldl maxNumber (Some ?v) (map Some ?vs) = Some (Max (set (?v # ?vs)))"
    by (rule foldl_maxNumber_Max)
  then have "foldl maxNumber (parseFloat env (ts m)) (map (\<lambda>x. parseFloat env (ts x)) ms)
               = Some (Max (set (?v # ?vs)))"
    unfolding e1 [symmetric] e2 [symmetric] .
  then show ?thesis
    by (simp add: latestTs_def)
qed

lemma pollChannel_serial_state:
  "lastTimestamp (snd (pollChannel (serial env) c s)) = lastTimestamp s
   \<or> (\<exists>m ms w. getChannelHistory env c (lastTimestamp s) (world s) = (Inr (m # ms), w)
         \<and> lastTimestamp (snd (pollChannel (serial env) c s)) = latestTs env m ms)"
proof (cases "getChannelHistory env c (lastTimestamp s) (world s)")
  case (Pair ans w)
  then show ?thesis
    by (cases ans; cases "projr ans")
      (auto simp: pollChannel_def await_def slack_getChannelHistory_def awaitCall_def
        record_call_def case_prod_beta split: sum.splits)
qed

lemma fetched_are_newer:
  assumes "honoursOldest env"
    and "getChannelHistory env c oldest w = (Inr msgs, w')"
    and "notBelow env M oldest" and "x \<in> set msgs"
  shows "\<exists>v. parseFloat env (ts x) = Some v \<and> M < v"
proof -
  have "numLess (parseFloat env oldest) (parseFloat env (ts x))"
    using assms(1,2,4) unfolding honoursOldest_def by blast
  then show ?thesis
    using assms(3) by (auto simp: numLess_def notBelow_def split: option.splits)
qed

lemma pollChannel_serial_notBelow:
  assumes "honoursOldest env" and "\<forall>v. parseFloat env (numberToString env (Some v)) = Some v"
    and "notBelow env M (lastTimestamp s)"
  shows "notBelow env M (lastTimestamp (snd (pollChannel (serial env) c s)))"
  using pollChannel_serial_state [of env c s]
proof (elim disjE exE conjE)
  assume "lastTimestamp (snd (pollChannel (serial env) c s)) = lastTimestamp s"
  then show ?thesis using assms(3) by simp
next
  fix m ms w
  assume fetch: "getChannelHistory env c (lastTimestamp s) (world s) = (Inr (m # ms), w)"
    and new: "lastTimestamp (snd (pollChannel (serial env) c s)) = latestTs env m ms"
  have newer: "\<forall>x\<in>set (m # ms). \<exists>v. parseFloat env (ts x) = Some v \<and> M < v"
    using fetched_are_newer [OF assms(1) fetch assms(3)] by blast
  then have "latestTs env m ms
           = numberToString env (Some (Max ((\<lambda>x. the (parseFloat env (ts x))) ` set (m # ms))))"
    by (intro latestTs_Max) auto
  moreover have "M \<le> Max ((\<lambda>x. the (parseFloat env (ts x))) ` set (m # ms))"
  proof -
    obtain v where "parseFloat env (ts m) = Some v" "M < v"
      using newer by auto
    then have "M \<le> the (parseFloat env (ts m))" by simp
    moreover have "the (parseFloat env (ts m)) \<le> Max ((\<lambda>x. the (parseFloat env (ts x))) ` set (m # ms))"
      by (intro Max_ge) auto
    ultimately show ?thesis by (rule order_trans)
  qed
  ultimately show ?thesis
    using new assms(2) by (simp add: notBelow_def)
qed

text \<open>
  Over the channels of a tick and over ticks: once the watermark is a number not
  below \<open>M\<close> it stays one, and every history fetch has such a lower bound.
\<close>

lemma pollChannels_serial_notBelow:
  assumes "honoursOldest env" and "\<forall>v. parseFloat env (numberToString env (Some v)) = Some v"
    and "notBelow env M (lastTimestamp s)"
  shows "notBelow env M (lastTimestamp (snd (pollChannels (serial env) cs s)))
       \<and> (\<exists>later. historyFetches (calls (snd (pollChannels (serial env) cs s)))
                     = historyFetches (calls s) @ later
                   \<and> (\<forall>f\<in>set later. notBelow env M (snd f)))"
  using assms(3)
proof (induction cs arbitrary: s)
  case Nil
  then show ?case by simp
next
  case (Cons c cs)
  let ?s1 = "snd (pollChannel (serial env) c s)"
  have s1: "notBelow env M (lastTimestamp ?s1)"
    using assms(1,2) Cons.prems by (rule pollChannel_serial_notBelow)
  have f1: "historyFetches (calls ?s1) = historyFetches (calls s) @ [(c, lastTimestamp s)]"
    by (rule pollChannel_serial_fetches)
  show ?case
  proof (cases "fst (pollChannel (serial env) c s)")
    case (Inl err)
    then have "snd (pollChannels (serial env) (c # cs) s) = ?s1"
      by (simp add: case_prod_beta)
    then show ?thesis
      using s1 f1 Cons.prems by simp
  next
    case (Inr u)
    let ?s2 = "pollActiveThreads (serial env) c ?s1"
    have eq: "snd (pollChannels (serial env) (c # cs) s) = snd (pollChannels (serial env) cs ?s2)"
      using Inr by (simp add: case_prod_beta)
    have "notBelow env M (lastTimestamp ?s2)"
      using s1 by simp
    then obtain later where
      "notBelow env M (lastTimestamp (snd (pollChannels (serial env) cs ?s2)))"
      "historyFetches (calls (snd (pollChannels (serial env) cs ?s2)))
         = historyFetches (calls ?s2) @ later"
      "\<forall>f\<in>set later. notBelow env M (snd f)"
      using Cons.IH [of ?s2] by blast
    then show ?thesis
      using eq f1 Cons.prems by simp
  qed
qed

lemma poll_serial_notBelow:
  assumes "honoursOldest env" and "\<forall>v. parseFloat env (numberToString env (Some v)) = Some v"
    and "notBelow env M (lastTimestamp s)"
  shows "notBelow env M (lastTimestamp (poll (serial env) s))
       \<and> (\<exists>later. historyFetches (calls (poll (serial env) s)) = historyFetches (calls s) @ later
                   \<and> (\<forall>f\<in>set later. notBelow env M (snd f)))"
  using pollChannels_serial_notBelow [OF assms, of "channelIds (config s)"]
  by (auto simp: poll_def logError_def record_call_def case_prod_beta split: sum.splits)

lemma ticks_serial_notBelow:
  assumes "honoursOldest env" and "\<forall>v. parseFloat env (numberToString env (Some v)) = Some v"
    and "notBelow env M (lastTimestamp s)"
  shows "notBelow env M (lastTimestamp ((poll (serial env) ^^ n) s))
       \<and> (\<exists>later. historyFetches (calls ((poll (serial env) ^^ n) s)) = historyFetches (calls s) @ later
                   \<and> (\<forall>f\<in>set later. notBelow env M (snd f)))"
proof (induction n)
  case 0
  then show ?case using assms(3) by simp
next
  case (Suc n)
  let ?s = "(poll (serial env) ^^ n) s"
  obtain l1 where l1: "notBelow env M (lastTimestamp ?s)"
      "historyFetches (calls ?s) = historyFetches (calls s) @ l1" "\<forall>f\<in>set l1. notBelow env M (snd f)"
    using Suc.IH by blast
  obtain l2 where l2: "notBelow env M (lastTimestamp (poll (serial env) ?s))"
      "historyFetches (calls (poll (serial env) ?s)) = historyFetches (calls ?s) @ l2"
      "\<forall>f\<in>set l2. notBelow env M (snd f)"
    using poll_serial_notBelow [OF assms(1,2) l1(1)] by blast
  have "historyFetches (calls ((poll (serial env) ^^ Suc n) s)) = historyFetches (calls s) @ (l1 @ l2)"
    using l1(2) l2(2) by simp
  moreover have "\<forall>f\<in>set (l1 @ l2). notBelow env M (snd f)"
    using l1(3) l2(3) by auto
  ultimately show ?case
    using l2(1) by (intro conjI exI [of _ "l1 @ l2"]) simp_all
qed

lemma pollChannels_append:
  "pollChannels env (xs @ ys) s
     = (case pollChannels env xs s of
          (Inl err, s') \<Rightarrow> (Inl err, s')
        | (Inr u, s') \<Rightarrow> pollChannels env ys s')"
  by (induction xs arbitrary: s) (auto split: prod.splits sum.splits)

text \<open>
  C10 (one watermark for all channels), for ticks that do not overlap. \<open>lastTimestamp\<close>
  starts as the start time given to the constructor, and \<open>pollChannel\<close> makes one
  history fetch, for its channel \<open>b\<close> whatever it is and from \<open>lastTimestamp\<close>. Let a
  tick reach the channel \<open>a\<close>, the fetch of \<open>a\<close> return the messages \<open>m # ms\<close>, and
  these be handled to the end: \<open>lastTimestamp\<close> is then the string of the maximum of
  their timestamps. If Slack honours \<open>oldest\<close> and a number that is printed reads back
  as itself, every history fetch made afterwards, in the rest of this tick or in any
  of the \<open>n\<close> ticks that follow, for any channel, has a lower bound to which Slack
  answers only with messages newer than each of \<open>m # ms\<close>: a message that is not newer
  than the maximum observed in \<open>a\<close> is in no later history, and \<open>handleMessage\<close> is
  called on the messages of a history only. (The replies of a thread are fetched from
  the thread's own bound, \<open>threadLastChecked\<close>.)
\<close>

theorem shared_channel_watermark:
  assumes "honoursOldest env"
    and "\<forall>v. parseFloat env (numberToString env (Some v)) = Some v"
    and "channelIds (config s0) = pre @ a # rest"
    and "pollChannels (serial env) pre s0 = (Inr (), s)"
    and "getChannelHistory env a (lastTimestamp s) (world s) = (Inr (m # ms), w1)"
    and "pollChannel (serial env) a s = (Inr (), s1)"
  shows "lastTimestamp (newBot cfg startTime w) = startTime
       \<and> historyFetches (calls (snd (pollChannel (serial env) b s')))
           = historyFetches (calls s') @ [(b, lastTimestamp s')]
       \<and> lastTimestamp s1
           = numberToString env (Some (Max ((\<lambda>x. the (parseFloat env (ts x))) ` set (m # ms))))
       \<and> (\<exists>later. historyFetches (calls ((poll (serial env) ^^ n) (poll (serial env) s0)))
                      = historyFetches (calls s1) @ later
             \<and> (\<forall>f\<in>set later. \<forall>w2 msgs w3.
                   getChannelHistory env (fst f) (snd f) w2 = (Inr msgs, w3) \<longrightarrow>
                   (\<forall>x\<in>set msgs. \<forall>y\<in>set (m # ms).
                      numLess (parseFloat env (ts y)) (parseFloat env (ts x)))))"
proof -
  let ?M = "Max ((\<lambda>x. the (parseFloat env (ts x))) ` set (m # ms))"
  have seen: "\<forall>y\<in>set (m # ms). \<exists>u. parseFloat env (ts y) = Some u \<and> u \<le> ?M"
  proof
    fix y
    assume y: "y \<in> set (m # ms)"
    have "numLess (parseFloat env (lastTimestamp s)) (parseFloat env (ts y))"
      using assms(1,5) y unfolding honoursOldest_def by blast
    then obtain u where u: "parseFloat env (ts y) = Some u"
      by (auto simp: numLess_def split: option.splits)
    have "the (parseFloat env (ts y)) \<le> ?M"
      using y by (intro Max_ge) auto
    then show "\<exists>u. parseFloat env (ts y) = Some u \<and> u \<le> ?M"
      using u by simp
  qed
  have "lastTimestamp s1 = latestTs env m ms"
    using assms(5,6) by (rule pollChannel_serial_watermark)
  moreover have "latestTs env m ms = numberToString env (Some ?M)"
    using seen by (intro latestTs_Max) auto
  ultimately have mark: "lastTimestamp s1 = numberToString env (Some ?M)"
    by simp
  then have b1: "notBelow env ?M (lastTimestamp s1)"
    using assms(2) by (simp add: notBelow_def)
  let ?s2 = "pollActiveThreads (serial env) a s1"
  have b2: "notBelow env ?M (lastTimestamp ?s2)"
    using b1 by simp
  have "pollChannels (serial env) (pre @ a # rest) s0 = pollChannels (serial env) rest ?s2"
    using assms(4,6) by (simp add: pollChannels_append)
  then have tick: "poll (serial env) s0
                     = (case pollChannels (serial env) rest ?s2 of
                          (Inl err, s') \<Rightarrow> logError PollingError err s'
                        | (Inr u, s') \<Rightarrow> s')"
    using assms(3) by (simp add: poll_def)
  obtain l1 where l1: "notBelow env ?M (lastTimestamp (snd (pollChannels (serial env) rest ?s2)))"
      "historyFetches (calls (snd (pollChannels (serial env) rest ?s2)))
         = historyFetches (calls ?s2) @ l1"
      "\<forall>f\<in>set l1. notBelow env ?M (snd f)"
    using pollChannels_serial_notBelow [OF assms(1,2) b2, of rest] by blast
  have t1: "notBelow env ?M (lastTimestamp (poll (serial env) s0))"
    and t2: "historyFetches (calls (poll (serial env) s0)) = historyFetches (calls s1) @ l1"
    using l1(1,2) tick
    by (auto simp: logError_def record_call_def case_prod_beta split: sum.splits)
  obtain l2 where l2:
      "historyFetches (calls ((poll (serial env) ^^ n) (poll (serial env) s0)))
         = historyFetches (calls (poll (serial env) s0)) @ l2"
      "\<forall>f\<in>set l2. notBelow env ?M (snd f)"
    using ticks_serial_notBelow [OF assms(1,2) t1, of n] by blast
  have newer: "\<forall>f\<in>set (l1 @ l2). \<forall>w2 msgs w3.
                 getChannelHistory env (fst f) (snd f) w2 = (Inr msgs, w3) \<longrightarrow>
                 (\<forall>x\<in>set msgs. \<forall>y\<in>set (m # ms).
                    numLess (parseFloat env (ts y)) (parseFloat env (ts x)))"
  proof (intro ballI allI impI)
    fix f w2 msgs w3 x y
    assume f: "f \<in> set (l1 @ l2)"
      and fetch: "getChannelHistory env (fst f) (snd f) w2 = (Inr msgs, w3)"
      and x: "x \<in> set msgs" and y: "y \<in> set (m # ms)"
    have "notBelow env ?M (snd f)"
      using f l1(3) l2(2) by auto
    then obtain v where v: "parseFloat env (ts x) = Some v" "?M < v"
      using fetched_are_newer [OF assms(1) fetch _ x] by blast
    obtain u where u: "parseFloat env (ts y) = Some u" "u \<le> ?M"
      using seen y by blast
    have "u < v"
      using u(2) v(2) by (rule le_less_trans)
    then show "numLess (parseFloat env (ts y)) (parseFloat env (ts x))"
      using u(1) v(1) by (simp add: numLess_def)
  qed
  have "historyFetches (calls ((poll (serial env) ^^ n) (poll (serial env) s0)))
          = historyFetches (calls s1) @ (l1 @ l2)"
    using l2(1) t2 by simp
  then have "\<exists>later. historyFetches (calls ((poll (serial env) ^^ n) (poll (serial env) s0)))
                      = historyFetches (calls s1) @ later
             \<and> (\<forall>f\<in>set later. \<forall>w2 msgs w3.
                   getChannelHistory env (fst f) (snd f) w2 = (Inr msgs, w3) \<longrightarrow>
                   (\<forall>x\<in>set msgs. \<forall>y\<in>set (m # ms).
                      numLess (parseFloat env (ts y)) (parseFloat env (ts x))))"
    using newer by blast
  then show ?thesis
    using mark by (simp add: newBot_def pollChannel_serial_fetches)
qed

lemma digits_decimal:
  "decimal n \<noteq> [] \<and> list_all (\<lambda>c. 48 \<le> c \<and> c \<le> 57) (decimal n)
   \<and> foldl (\<lambda>a c. 10 * a + (c - 48)) 0 (decimal n) = n"
proof (induction n rule: decimal.induct)
  case (1 n)
  show ?case
  proof (cases "n < 10")
    case True
    then show ?thesis by (simp add: decimal.simps [of n])
  next
    case False
    then show ?thesis
      using 1 by (simp add: decimal.simps [of n])
  qed
qed

lemma sampleParseFloat_sampleToString: "sampleParseFloat (sampleToString (Some n)) = Some n"
  using digits_decimal [of n] by (simp add: sampleParseFloat_def sampleToString_def)

lemmas watermark_eval = numLess_def inChannel_def

lemma watermarkEnv_fields:
  "getChannelHistory watermarkEnv c oldest w
     = (Inr (filter (\<lambda>x. numLess (sampleParseFloat oldest) (sampleParseFloat (ts x)))
               (if c = str ''C1''
                then [sampleMessage (str ''7'') (str ''U1'') (str ''world''),
                      sampleMessage (str ''5'') (str ''U1'') (str ''hello'')]
                else [inChannel c (sampleMessage (str ''9'') (str ''U1'') (str ''world'')),
                      inChannel c (sampleMessage (str ''3'') (str ''U1'') (str ''hello''))])), w)"
  "getThreadReplies watermarkEnv c t oldest w = (Inr [], w)"
  "postMessage watermarkEnv c body th w = (Inr (), w)"
  "parseFloat watermarkEnv = sampleParseFloat"
  "numberToString watermarkEnv = sampleToString"
  by (simp_all add: watermarkEnv_def sampleEnv_def)

text \<open>
  Witness for C10: channel \<open>C1\<close> has the messages \<open>7\<close> and \<open>5\<close>, channel \<open>C2\<close> the messages
  \<open>9\<close> and \<open>3\<close>. The tick started at \<open>0\<close> fetches \<open>C1\<close> from \<open>0\<close>, which moves the
  watermark to \<open>7\<close>, and then \<open>C2\<close> from \<open>7\<close>; the next tick fetches both from \<open>9\<close>. The
  message \<open>3\<close> of \<open>C2\<close> is never asked for.
\<close>

theorem shared_channel_watermark_witness:
  "honoursOldest watermarkEnv
   \<and> lastTimestamp (snd (pollChannel (serial watermarkEnv) (str ''C1'')
                           (start (Some (str ''UBOT'')) (newBot demoConfig (str ''0'') 0))))
       = str ''7''
   \<and> historyFetches
       (calls ((poll (serial watermarkEnv) ^^ Suc 0)
                 (poll (serial watermarkEnv)
                    (start (Some (str ''UBOT'')) (newBot demoConfig (str ''0'') 0)))))
       = [(str ''C1'', str ''0''), (str ''C2'', str ''7''),
          (str ''C1'', str ''9''), (str ''C2'', str ''9'')]"
proof -
  let ?s0 = "start (Some (str ''UBOT'')) (newBot demoConfig (str ''0'') (0::nat))"
  let ?m7 = "sampleMessage (str ''7'') (str ''U1'') (str ''world'')"
  let ?m5 = "sampleMessage (str ''5'') (str ''U1'') (str ''hello'')"
  have h: "honoursOldest watermarkEnv"
    by (auto simp: honoursOldest_def watermarkEnv_fields)
  have r: "\<forall>v. parseFloat watermarkEnv (numberToString watermarkEnv (Some v)) = Some v"
    by (simp add: watermarkEnv_fields sampleParseFloat_sampleToString)
  have c: "channelIds (config ?s0) = [] @ str ''C1'' # [str ''C2'']"
    by (simp add: channelIds_def sample_eval)
  have p: "pollChannels (serial watermarkEnv) [] ?s0 = (Inr (), ?s0)"
    by simp
  have f: "getChannelHistory watermarkEnv (str ''C1'') (lastTimestamp ?s0) (world ?s0)
             = (Inr (?m7 # [?m5]), 0)"
    by (simp add: watermarkEnv_fields sampleMessage_def newBot_def start_def numLess_def
          sampleParseFloat_def str_def)
  have d: "pollChannel (serial watermarkEnv) (str ''C1'') ?s0
             = (Inr (), snd (pollChannel (serial watermarkEnv) (str ''C1'') ?s0))"
    by (simp add: poll_eval handler_eval parser_eval watermarkEnv_fields watermark_eval
          sampleMessage_def demoConfig_def newBot_def start_def)
  have e: "historyFetches (calls (poll (serial watermarkEnv) (poll (serial watermarkEnv) ?s0)))
             = [(str ''C1'', str ''0''), (str ''C2'', str ''7''),
                (str ''C1'', str ''9''), (str ''C2'', str ''9'')]"
    by (simp add: poll_eval handler_eval parser_eval watermarkEnv_fields watermark_eval
          sampleMessage_def demoConfig_def newBot_def start_def)
  have l: "lastTimestamp (snd (pollChannel (serial watermarkEnv) (str ''C1'') ?s0)) = str ''7''"
    by (simp add: poll_eval handler_eval parser_eval watermarkEnv_fields watermark_eval
          sampleMessage_def demoConfig_def newBot_def start_def)
  show ?thesis
    using shared_channel_watermark [OF h r c p f d, of demoConfig "str ''0''" 0 "str ''C1''" ?s0 "Suc 0"]
      h e l
    by simp
qed
section \<open>Overlapping ticks\<close>

lemmas racing_eval = racingEnv_def timerDue_def racingStart_def timerFires_def timerCallback_def
  sharedState_def

text \<open>
  Counterexample to C1 as stated. The first tick asks for the history of \<open>C1\<close> from
  \<open>0\<close>; while this call is pending the timer fires and a second tick starts, asks for
  the same history, marks the messages \<open>5\<close> and \<open>7\<close> as processed and moves the
  watermark to \<open>7\<close>. The first tick resumes on this state with its own, older answer
  and writes the watermark \<open>5\<close>: the mutations of the two ticks are interleaved.
\<close>

theorem overlapping_ticks_counterexample:
  "sharedState (snd (slack_getChannelHistory (timerFires timerDue racingEnv) (str ''C1'')
                        (lastTimestamp racingStart) racingStart))
     \<noteq> sharedState racingStart
   \<and> sharedState racingStart
     = ({}, [], sessionObjects racingStart, (\<lambda>k. None), str ''0'')
   \<and> sharedState (snd (slack_getChannelHistory (timerFires timerDue racingEnv) (str ''C1'')
                        (lastTimestamp racingStart) racingStart))
     = ({str ''5'', str ''7''}, [], sessionObjects racingStart, (\<lambda>k. None), str ''7'')
   \<and> lastTimestamp (poll (timerFires timerDue racingEnv) racingStart) = str ''5''
   \<and> calls (poll (timerFires timerDue racingEnv) racingStart)
     = [GetChannelHistory (str ''C1'') (str ''0''), GetChannelHistory (str ''C1'') (str ''0'')]"
  by (simp add: racing_eval poll_eval handler_eval sample_eval parser_eval insert_commute)

lemma timerFires_simps [simp]:
  "whilePending (timerFires due env) = (\<lambda>s. if due s then poll (serial env) s else s)"
  "getChannelHistory (timerFires due env) = getChannelHistory env"
  "getThreadReplies (timerFires due env) = getThreadReplies env"
  "postMessage (timerFires due env) = postMessage env"
  "downloadImage (timerFires due env) = downloadImage env"
  by (simp_all add: timerFires_def timerCallback_def fun_eq_iff)

text \<open>
  C1, as the code has it. The coordinator has no serialization of its own: the
  callback of the timer is \<open>poll\<close>. When no callback runs while a call of the Slack
  client is pending, the call returns with the shared state as the tick left it. When
  the timer is due during a pending call, the tick of the callback runs on the shared
  state first, and the suspended tick resumes on the state that tick leaves.
\<close>

theorem ticks_interleave_at_pending_calls:
  "sharedState (snd (slack_getChannelHistory (serial env) c oldest s)) = sharedState s
   \<and> sharedState (snd (slack_getThreadReplies (serial env) c t oldest s)) = sharedState s
   \<and> sharedState (snd (slack_postMessage (serial env) c body th s)) = sharedState s
   \<and> sharedState (snd (slack_downloadImage (serial env) f s)) = sharedState s
   \<and> slack_getChannelHistory (timerFires due env) c oldest s
       = (fst (slack_getChannelHistory (serial env) c oldest s),
          if due (snd (slack_getChannelHistory (serial env) c oldest s))
          then poll (serial env) (snd (slack_getChannelHistory (serial env) c oldest s))
          else snd (slack_getChannelHistory (serial env) c oldest s))
   \<and> slack_getThreadReplies (timerFires due env) c t oldest s
       = (fst (slack_getThreadReplies (serial env) c t oldest s),
          if due (snd (slack_getThreadReplies (serial env) c t oldest s))
          then poll (serial env) (snd (slack_getThreadReplies (serial env) c t oldest s))
          else snd (slack_getThreadReplies (serial env) c t oldest s))
   \<and> slack_postMessage (timerFires due env) c body th s
       = (fst (slack_postMessage (serial env) c body th s),
          if due (snd (slack_postMessage (serial env) c body th s))
          then poll (serial env) (snd (slack_postMessage (serial env) c body th s))
          else snd (slack_postMessage (serial env) c body th s))"
  by (simp add: sharedState_def slack_getChannelHistory_def slack_getThreadReplies_def
        slack_postMessage_def slack_downloadImage_def awaitCall_def record_call_def
        case_prod_beta)

text \<open>
  Witness for C1: the pending first fetch of the example, and two ticks run one after
  the other, which leave the watermark at \<open>7\<close>.
\<close>

theorem ticks_interleave_at_pending_calls_witness:
  "slack_getChannelHistory (timerFires timerDue racingEnv) (str ''C1'') (str ''0'') racingStart
     = (Inr [sampleMessage (str ''5'') (str ''UBOT'') (str ''done'')],
        poll (serial racingEnv)
          (racingStart\<lparr>calls := [GetChannelHistory (str ''C1'') (str ''0'')], world := 1\<rparr>))
   \<and> lastTimestamp (poll (serial racingEnv) (poll (serial racingEnv) racingStart)) = str ''7''"
  using ticks_interleave_at_pending_calls [of racingEnv "str ''C1''" "str ''0''" racingStart
      "str ''5''" "str ''done''" None undefined timerDue]
  by (simp add: racing_eval poll_eval handler_eval sample_eval parser_eval)



section \<open>Overlapping ticks and the shared state\<close>

text \<open>
  The environment in which the timer fires during the calls where \<open>due\<close> holds, field
  by field.
\<close>

lemma timerFires_pending:
  "whilePending (timerFires due env) s = (if due s then poll (serial env) s else s)"
  by simp

lemma timerFires_others:
  "executeClaudeCodeWithSession (timerFires due env) = executeClaudeCodeWithSession env"
  "parseFloat (timerFires due env) = parseFloat env"
  "numberToString (timerFires due env) = numberToString env"
  by (simp_all add: timerFires_def)

lemmas tick_eval = threadTsOfKey_def channelIds_def latestTs_def maxNumber_def split_on_def
  sampleParseFloat_def sampleToString_def decimal.simps parser_eval numLess_def removeMentions_def
  mentionLength_def isMentionIdUnit_def processingNotice_def sampleMessage_def demoConfig_def
  newBot_def start_def record_call_def runClaude_def logError_def markProcessed_def
  rememberThread_def getSessionKey_def filesOf_def Let_def activeThreads_def poll_def
  pollChannel_def pollActiveThreads_def pollThread_def handleThreadReply_def handleMessage_def
  slack_getChannelHistory_def slack_getThreadReplies_def slack_postMessage_def
  slack_downloadImage_def awaitCall_def await_def timerFires_pending timerFires_others

lemma lateEnv_fields:
  "getChannelHistory lateEnv c oldest w
     = (Inr (filter (\<lambda>x. numLess (sampleParseFloat oldest) (sampleParseFloat (ts x)))
               (if c = str ''C1''
                then (if w = 0 then [sampleMessage (str ''5'') (str ''U1'') (str ''hello'')]
                      else [sampleMessage (str ''7'') (str ''U1'') (str ''world''),
                            sampleMessage (str ''5'') (str ''U1'') (str ''hello'')])
                else [inChannel c
                        (sampleMessage (str ''6'') (str ''U1'') (str ''!claude demo fix the bug''))])),
        Suc w)"
  "getThreadReplies lateEnv c t oldest w = (Inr [], w)"
  "postMessage lateEnv c body th w = (Inr (), w)"
  "executeClaudeCodeWithSession lateEnv opts w = (sampleResult, w)"
  "parseFloat lateEnv = sampleParseFloat"
  "numberToString lateEnv = sampleToString"
  by (simp_all add: lateEnv_def sampleEnv_def)

text \<open>
  Counterexample to C10 as stated, with a Slack that honours \<open>oldest\<close>. The first tick
  asks for the history of \<open>C1\<close> from \<open>0\<close>; while this call is pending the timer fires
  and a second tick runs: it is answered with the messages \<open>7\<close> and \<open>5\<close> of \<open>C1\<close>, moves
  the watermark to \<open>7\<close> and asks for the history of \<open>C2\<close> from \<open>7\<close>. The first tick
  resumes with its own answer, the message \<open>5\<close>, and writes the watermark \<open>5\<close>: it asks
  for the history of \<open>C2\<close> from \<open>5\<close>, is answered with the message \<open>6\<close> and executes
  it, after \<open>7\<close> was observed in \<open>C1\<close>.
\<close>

theorem late_message_counterexample:
  "honoursOldest lateEnv
   \<and> calls (poll (timerFires timerDue lateEnv)
              (start (Some (str ''UBOT'')) (newBot demoConfig (str ''0'') 0)))
     = [GetChannelHistory (str ''C1'') (str ''0''),
        GetChannelHistory (str ''C1'') (str ''0''),
        GetChannelHistory (str ''C2'') (str ''7''),
        GetChannelHistory (str ''C2'') (str ''5''),
        PostMessage (str ''C2'') processingNotice (Some (str ''6'')),
        Execute \<lparr>prompt = str ''fix the bug'', cwd = str ''/srv/demo'', images = None,
                 resumeSessionId = None, systemPrompt = None, additionalAllowedTools = None\<rparr>
          sampleResult,
        PostMessage (str ''C2'') (responseText sampleResult (str ''/srv/demo'')) (Some (str ''6'')),
        GetThreadReplies (str ''C2'') (str ''6'') (str ''6'')]
   \<and> getChannelHistory lateEnv (str ''C1'') (str ''0'') 1
     = (Inr [sampleMessage (str ''7'') (str ''U1'') (str ''world''),
             sampleMessage (str ''5'') (str ''U1'') (str ''hello'')], 2)
   \<and> getChannelHistory lateEnv (str ''C2'') (str ''5'') 3
     = (Inr [inChannel (str ''C2'')
               (sampleMessage (str ''6'') (str ''U1'') (str ''!claude demo fix the bug''))], 4)"
proof -
  have "honoursOldest lateEnv"
    by (auto simp: honoursOldest_def lateEnv_fields)
  then show ?thesis
    by (simp add: tick_eval lateEnv_fields timerDue_def inChannel_def del: timerFires_simps(1))
qed


end
